theory Spec2Isabelle
  imports Main
begin

section \<open>Python strings and the regular expressions of \<open>main.py\<close>\<close>

text \<open>
  A Python \<open>str\<close> is a sequence of Unicode code points, so a character is a natural
  number and a string a list of them. \<open>py\<close> turns an ASCII literal of the source
  into such a string.
\<close>

type_synonym pychar = nat
type_synonym pystr = "pychar list"

definition py :: "string \<Rightarrow> pystr" where
  "py s = map of_char s"

text \<open>
  The characters that \<open>str.strip()\<close> removes and that \<open>\s\<close> matches in a \<open>str\<close>
  pattern: those for which \<open>str.isspace()\<close> holds (CPython's whitespace table).
\<close>

definition uni_space :: "pychar \<Rightarrow> bool" where
  "uni_space c \<longleftrightarrow>
     (9 \<le> c \<and> c \<le> 13) \<or> (28 \<le> c \<and> c \<le> 32) \<or> c = 133 \<or> c = 160 \<or> c = 5760 \<or>
     (8192 \<le> c \<and> c \<le> 8202) \<or> c = 8232 \<or> c = 8233 \<or> c = 8239 \<or> c = 8287 \<or> c = 12288"

text \<open>
  \<open>\d\<close> in a \<open>str\<close> pattern matches every decimal digit of Unicode (category Nd).
  The digits come in blocks of ten; \<open>decimal_blocks\<close> lists the first code point of
  each block (Unicode 14.0, the table of CPython 3.11), and the mathematical digits
  fill the range 120782 to 120831.
\<close>

definition decimal_blocks :: "pychar list" where
  "decimal_blocks =
     [48, 1632, 1776, 1984, 2406, 2534, 2662, 2790, 2918, 3046, 3174, 3302, 3430, 3558,
      3664, 3792, 3872, 4160, 4240, 6112, 6160, 6470, 6608, 6784, 6800, 6992, 7088, 7232,
      7248, 42528, 43216, 43264, 43472, 43504, 43600, 44016, 65296, 66720, 68912, 69734,
      69872, 69942, 70096, 70384, 70736, 70864, 71248, 71360, 71472, 71904, 72016, 72784,
      73040, 73120, 92768, 92864, 93008, 123200, 123632, 125264, 130032]"

definition uni_decimal :: "pychar \<Rightarrow> bool" where
  "uni_decimal c \<longleftrightarrow>
     list_ex (\<lambda>b. b \<le> c \<and> c \<le> b + 9) decimal_blocks \<or> (120782 \<le> c \<and> c \<le> 120831)"

definition upper_az :: "pychar \<Rightarrow> bool" where
  "upper_az c \<longleftrightarrow> 65 \<le> c \<and> c \<le> 90"

definition lower_az :: "pychar \<Rightarrow> bool" where
  "lower_az c \<longleftrightarrow> 97 \<le> c \<and> c \<le> 122"

text \<open>\<open>text.strip()\<close>: whitespace removed at both ends.\<close>

definition strip :: "pystr \<Rightarrow> pystr" where
  "strip s = rev (dropWhile uni_space (rev (dropWhile uni_space s)))"

text \<open>\<open>text.split('\n')\<close>: the pieces between line feeds; never the empty list.\<close>

fun split_nl :: "pystr \<Rightarrow> pystr list" where
  "split_nl [] = [[]]"
| "split_nl (c # cs) =
     (if c = 10 then [] # split_nl cs
      else (case split_nl cs of [] \<Rightarrow> [[c]] | l # ls \<Rightarrow> (c # l) # ls))"

text \<open>
  The fragment of Python's \<open>re\<close> syntax that the source uses. A matcher state is the
  number of characters consumed so far and the rest of the subject. \<open>ends r st\<close>
  lists the states in which a match of \<open>r\<close> started in \<open>st\<close> can end; backtracking
  finds a match exactly when one exists, so the order and the multiplicity of the
  list do not matter. Without flags, \<open>^\<close> holds only at position 0, \<open>$\<close> at the end of
  the subject or before a line feed that ends it, and \<open>.\<close> matches all but the line
  feed.
\<close>

datatype regex =
    Eps
  | Bol
  | Eol
  | Cls "pychar \<Rightarrow> bool"
  | Cat regex regex
  | Star regex
  | Opt regex

type_synonym mstate = "nat \<times> pystr"

fun star_ends :: "nat \<Rightarrow> (mstate \<Rightarrow> mstate list) \<Rightarrow> mstate list \<Rightarrow> mstate list" where
  "star_ends 0 f front = front"
| "star_ends (Suc k) f front = front @ star_ends k f (concat (map f front))"

primrec ends :: "regex \<Rightarrow> mstate \<Rightarrow> mstate list" where
  "ends Eps st = [st]"
| "ends Bol st = (if fst st = 0 then [st] else [])"
| "ends Eol st = (if snd st = [] \<or> snd st = [10] then [st] else [])"
| "ends (Cls p) st =
     (case snd st of [] \<Rightarrow> [] | c # t \<Rightarrow> if p c then [(Suc (fst st), t)] else [])"
| "ends (Cat a b) st = concat (map (ends b) (ends a st))"
| "ends (Star a) st = star_ends (length (snd st)) (ends a) [st]"
| "ends (Opt a) st = st # ends a st"

definition Plus :: "regex \<Rightarrow> regex" where
  "Plus r = Cat r (Star r)"

definition Seq :: "regex list \<Rightarrow> regex" where
  "Seq rs = foldr Cat rs Eps"

text \<open>\<open>pattern.match(s)\<close>: a match that starts at position 0.\<close>

definition re_match :: "regex \<Rightarrow> pystr \<Rightarrow> bool" where
  "re_match r s \<longleftrightarrow> ends r (0, s) \<noteq> []"

text \<open>\<open>pattern.search(s)\<close>: a match that starts at any position.\<close>

fun search_from :: "regex \<Rightarrow> nat \<Rightarrow> pystr \<Rightarrow> bool" where
  "search_from r n [] \<longleftrightarrow> ends r (n, []) \<noteq> []"
| "search_from r n (c # cs) \<longleftrightarrow> ends r (n, c # cs) \<noteq> [] \<or> search_from r (Suc n) cs"

definition re_search :: "regex \<Rightarrow> pystr \<Rightarrow> bool" where
  "re_search r s \<longleftrightarrow> search_from r 0 s"

text \<open>
  The four patterns of \<open>_process_content\<close>, in the order of the source:
  \<^verbatim>\<open>^\s*(?:[A-Z][A-Z\s]+:?\s*)$\<close>,
  \<^verbatim>\<open>^\s*\d+\.\s+[A-Z][a-zA-Z\s]+\<close>,
  a third one that the file spells \<^verbatim>\<open>^\s*\<close>, the two code points U+0E22 U+0E07,
  \<^verbatim>\<open>\s*\d+\.\s.*\<close>, and
  \<^verbatim>\<open>^\s*[IVX]+\.\s.*\<close>.
\<close>

definition header_patterns :: "regex list" where
  "header_patterns =
     [Seq [Bol, Star (Cls uni_space),
           Seq [Cls upper_az, Plus (Cls (\<lambda>c. upper_az c \<or> uni_space c)),
                Opt (Cls (\<lambda>c. c = 58)), Star (Cls uni_space)],
           Eol],
      Seq [Bol, Star (Cls uni_space), Plus (Cls uni_decimal), Cls (\<lambda>c. c = 46),
           Plus (Cls uni_space), Cls upper_az,
           Plus (Cls (\<lambda>c. lower_az c \<or> upper_az c \<or> uni_space c))],
      Seq [Bol, Star (Cls uni_space), Cls (\<lambda>c. c = 3618), Cls (\<lambda>c. c = 3591),
           Star (Cls uni_space), Plus (Cls uni_decimal), Cls (\<lambda>c. c = 46),
           Cls uni_space, Star (Cls (\<lambda>c. c \<noteq> 10))],
      Seq [Bol, Star (Cls uni_space), Plus (Cls (\<lambda>c. c = 73 \<or> c = 86 \<or> c = 88)),
           Cls (\<lambda>c. c = 46), Cls uni_space, Star (Cls (\<lambda>c. c \<noteq> 10))]]"

text \<open>\<open>any(pattern.match(line) for pattern in header_patterns)\<close>\<close>

definition is_header :: "pystr \<Rightarrow> bool" where
  "is_header line \<longleftrightarrow> list_ex (\<lambda>pattern. re_match pattern line) header_patterns"

text \<open>The pattern \<^verbatim>\<open>^\s*$\<close> that \<open>_extract_tables\<close> hands to \<open>DataFrame.replace\<close>.\<close>

definition blank_pattern :: regex where
  "blank_pattern = Seq [Bol, Star (Cls uni_space), Eol]"

section \<open>The data of a run\<close>

text \<open>
  The exceptions that the \<open>except\<close> clauses of the source tell apart:
  \<open>pypdf.errors.PdfReadError\<close> and any other subclass of \<open>Exception\<close>, among them
  the \<open>KeyError\<close> of a dictionary lookup. What is raised outside \<open>Exception\<close> (a
  keyboard interrupt, an exit of the interpreter) ends the process and is not part of
  the model; neither is what the source prints.
\<close>

datatype exn = PdfReadError | KeyError | OtherException

text \<open>
  The records that the source builds as dictionary literals: a page of text
  (\<open>page\<close>, \<open>content\<close>, \<open>type\<close>), a figure (\<open>page\<close>, \<open>bbox\<close>, \<open>width\<close>, \<open>height\<close>) and
  a table (\<open>method\<close>, \<open>page\<close>, \<open>data\<close>).
\<close>

record text_record =
  rec_page :: int
  rec_content :: pystr
  rec_type :: string

text \<open>
  The values found in the dictionaries of a library; a finite float is a mantissa and
  a binary exponent. They are only copied, never computed with.
\<close>

datatype pyvalue =
    VNone
  | VBool bool
  | VInt int
  | VFloat int int
  | VStr pystr
  | VTuple "pyvalue list"

text \<open>
  An element of \<open>page.images\<close> is a dictionary, and \<open>image["bbox"]\<close> a lookup in it
  that raises \<open>KeyError\<close> when the key is missing.
\<close>

type_synonym image = "string \<rightharpoonup> pyvalue"

definition getitem :: "(string \<rightharpoonup> 'v) \<Rightarrow> string \<Rightarrow> exn + 'v" where
  "getitem d k = (case d k of None \<Rightarrow> Inl KeyError | Some v \<Rightarrow> Inr v)"

record figure_record =
  fig_page :: int
  fig_bbox :: pyvalue
  fig_width :: pyvalue
  fig_height :: pyvalue

text \<open>
  A pandas \<open>DataFrame\<close>: column labels and rows of cells. A cell is missing (\<open>None\<close>
  or NaN), a string, an integer, a finite float or a truth value.

  What \<open>df.replace(..., None, regex=True)\<close> writes into a cell depends on the pandas
  that made the frame: \<open>None\<close> in pandas 2, NaN in pandas 3, where text columns have
  the string type. \<open>df_null\<close> is that marker; the repository does not fix a version,
  and versions before pandas 2 are not covered.
\<close>

datatype null_marker = PyNone | NaN

datatype cell = CNull null_marker | CStr pystr | CInt int | CFloat int int | CBool bool

datatype label = LInt int | LStr pystr

record dataframe =
  df_columns :: "label list"
  df_rows :: "cell list list"
  df_null :: null_marker

type_synonym row_dict = "(label \<times> cell) list"

record table_record =
  tbl_method :: string
  tbl_page :: int
  tbl_data :: "row_dict list"

datatype meta_value = MNone | MStr pystr | MInt int

text \<open>\<open>self.results\<close>, a dictionary with six fixed keys.\<close>

record extraction_result =
  metadata :: "(string \<times> meta_value) list"
  headers :: "pystr \<rightharpoonup> pystr list"
  content :: "text_record list"
  list_items :: "pystr list"
  tables :: "table_record list"
  figures :: "figure_record list"

text \<open>The attributes of an \<open>AdvancedPDFExtractor\<close>.\<close>

record extractor =
  pdf_path :: string
  results :: extraction_result
  extraction_methods :: "string list"
  is_scanned :: bool
  ocr_engine :: string

section \<open>The libraries\<close>

text \<open>
  What the third-party libraries answer for the file at \<open>pdf_path\<close>. Every call either
  raises (\<open>Inl\<close>) or returns (\<open>Inr\<close>); a page whose text cannot be read, or whose text
  is not a string so that \<open>text.strip()\<close> raises, is an \<open>Inl\<close> page.
  \<^item> \<open>fitz_open\<close>: \<open>fitz.open\<close>, with the document's \<open>metadata\<close> dictionary, its
    \<open>page_count\<close> and the result of \<open>get_text\<close> on each page;
  \<^item> \<open>plumber_open\<close>: \<open>pdfplumber.open\<close>, with \<open>extract_text\<close> and \<open>images\<close>, a list
    of dictionaries, of each page;
  \<^item> \<open>pypdf_reader\<close>: \<open>PdfReader\<close>, with \<open>extract_text\<close> of each page;
  \<^item> \<open>ocr_images\<close>: \<open>convert_from_path\<close>, with \<open>image_to_string\<close> of each image;
  \<^item> \<open>camelot_read_pdf\<close> and \<open>tabula_read_pdf\<close>: the detected tables. Operations on a
    frame that has been returned are taken not to raise.

  The file does not change during a run: \<open>fitz.open\<close>, which the source calls twice,
  answers the same both times.
\<close>

record fitz_doc =
  fz_metadata :: "string \<rightharpoonup> meta_value"
  fz_page_count :: int
  fz_pages :: "(exn + pystr) list"

record plumber_page =
  pl_extract_text :: "exn + pystr"
  pl_images :: "exn + image list"

record camelot_table =
  cm_page :: int
  cm_df :: dataframe

record library =
  fitz_open :: "exn + fitz_doc"
  plumber_open :: "exn + plumber_page list"
  pypdf_reader :: "exn + (exn + pystr) list"
  ocr_images :: "exn + (exn + pystr) list"
  camelot_read_pdf :: "exn + camelot_table list"
  tabula_read_pdf :: "exn + dataframe list"

section \<open>The extractor\<close>

text \<open>\<open>__init__\<close>\<close>

definition init :: "string \<Rightarrow> extractor" where
  "init path =
     \<lparr>pdf_path = path,
      results = \<lparr>metadata = [], headers = Map.empty, content = [], list_items = [],
                 tables = [], figures = []\<rparr>,
      extraction_methods = [],
      is_scanned = False,
      ocr_engine = ''Tesseract''\<rparr>"

text \<open>\<open>metadata.get(key, "")\<close>\<close>

definition meta_get :: "(string \<rightharpoonup> meta_value) \<Rightarrow> string \<Rightarrow> meta_value" where
  "meta_get m k = (case m k of None \<Rightarrow> MStr [] | Some v \<Rightarrow> v)"

text \<open>\<open>_extract_metadata\<close>: outside every \<open>try\<close>, so a failure to open leaves the method.\<close>

definition extract_metadata :: "library \<Rightarrow> extractor \<Rightarrow> exn + extractor" where
  "extract_metadata L s =
     (case fitz_open L of
        Inl e \<Rightarrow> Inl e
      | Inr doc \<Rightarrow>
          Inr (s\<lparr>results := (results s)\<lparr>metadata :=
                 [(''title'', meta_get (fz_metadata doc) ''title''),
                  (''author'', meta_get (fz_metadata doc) ''author''),
                  (''creator'', meta_get (fz_metadata doc) ''creator''),
                  (''creation_date'', meta_get (fz_metadata doc) ''creation_date''),
                  (''modification_date'', meta_get (fz_metadata doc) ''mod_date''),
                  (''page_count'', MInt (fz_page_count doc))]\<rparr>\<rparr>))"

subsection \<open>Tables\<close>

text \<open>\<open>df.empty\<close>: some axis has length 0.\<close>

definition df_empty :: "dataframe \<Rightarrow> bool" where
  "df_empty df \<longleftrightarrow> df_columns df = [] \<or> df_rows df = []"

text \<open>
  \<open>df.replace(r'^\s*$', None, regex=True)\<close>: a string cell in which the pattern is
  found becomes the missing marker of the frame; every other cell stays.
\<close>

fun replace_blank :: "null_marker \<Rightarrow> cell \<Rightarrow> cell" where
  "replace_blank null (CStr s) = (if re_search blank_pattern s then CNull null else CStr s)"
| "replace_blank null c = c"

text \<open>\<open>df.fillna('')\<close>: a missing cell (\<open>None\<close> or NaN) becomes the empty string.\<close>

fun fillna :: "cell \<Rightarrow> cell" where
  "fillna (CNull m) = CStr []"
| "fillna c = c"

text \<open>
  \<open>df.to_dict(orient='records')\<close>: one dictionary per row, built from the pairs of
  column label and cell; a label that occurs again overwrites the value and keeps
  its place.
\<close>

fun dict_set :: "'k \<Rightarrow> 'v \<Rightarrow> ('k \<times> 'v) list \<Rightarrow> ('k \<times> 'v) list" where
  "dict_set k v [] = [(k, v)]"
| "dict_set k v (p # ps) = (if fst p = k then (k, v) # ps else p # dict_set k v ps)"

definition to_dict_records :: "label list \<Rightarrow> cell list list \<Rightarrow> row_dict list" where
  "to_dict_records cols rows =
     map (\<lambda>row. fold (\<lambda>(k, v). dict_set k v) (zip cols row) []) rows"

text \<open>The loop over \<open>camelot_tables\<close>.\<close>

fun camelot_loop :: "camelot_table list \<Rightarrow> table_record list \<Rightarrow> table_record list" where
  "camelot_loop [] ts = ts"
| "camelot_loop (t # rest) ts =
     (if df_empty (cm_df t) then camelot_loop rest ts
      else camelot_loop rest
             (ts @ [\<lparr>tbl_method = ''Camelot'', tbl_page = cm_page t,
                     tbl_data = to_dict_records (df_columns (cm_df t))
                                  (map (map (replace_blank (df_null (cm_df t))))
                                     (df_rows (cm_df t)))\<rparr>]))"

text \<open>The loop over \<open>enumerate(tabula_tables)\<close>.\<close>

fun tabula_loop :: "dataframe list \<Rightarrow> nat \<Rightarrow> table_record list \<Rightarrow> table_record list" where
  "tabula_loop [] i ts = ts"
| "tabula_loop (t # rest) i ts =
     (if \<not> df_empty t
      then tabula_loop rest (Suc i)
             (ts @ [\<lparr>tbl_method = ''Tabula'', tbl_page = int i + 1,
                     tbl_data = to_dict_records (df_columns t)
                                  (map (map fillna) (df_rows t))\<rparr>])
      else tabula_loop rest (Suc i) ts)"

text \<open>\<open>_extract_tables\<close>: two \<open>try\<close> blocks, one after the other.\<close>

definition extract_tables :: "library \<Rightarrow> extractor \<Rightarrow> extractor" where
  "extract_tables L s =
     (let s1 = (case camelot_read_pdf L of
                  Inl e \<Rightarrow> s
                | Inr camelot_tables \<Rightarrow>
                    s\<lparr>results := (results s)\<lparr>tables :=
                         camelot_loop camelot_tables (tables (results s))\<rparr>\<rparr>)
      in (case tabula_read_pdf L of
            Inl e \<Rightarrow> s1
          | Inr tabula_tables \<Rightarrow>
              s1\<lparr>results := (results s1)\<lparr>tables :=
                    tabula_loop tabula_tables 0 (tables (results s1))\<rparr>\<rparr>))"

subsection \<open>Text strategies\<close>

text \<open>
  The page loop shared, up to the tag, by \<open>_extract_with_pymupdf\<close>,
  \<open>_extract_with_pypdf\<close> and \<open>_ocr_fallback\<close>: \<open>n\<close> is \<open>page_num\<close> and \<open>tc\<close> the
  local list \<open>text_content\<close>. An exception leaves the loop with the list lost.
\<close>

fun page_loop ::
  "string \<Rightarrow> (exn + pystr) list \<Rightarrow> nat \<Rightarrow> text_record list \<Rightarrow> exn + text_record list" where
  "page_loop tag [] n tc = Inr tc"
| "page_loop tag (p # ps) n tc =
     (case p of
        Inl e \<Rightarrow> Inl e
      | Inr text \<Rightarrow>
          page_loop tag ps (Suc n)
            (if strip text \<noteq> []
             then tc @ [\<lparr>rec_page = int n + 1, rec_content = text, rec_type = tag\<rparr>]
             else tc))"

text \<open>
  The success path common to the three digital strategies: extend \<open>content\<close>, record
  the method, extract the tables.
\<close>

definition commit_text :: "library \<Rightarrow> string \<Rightarrow> text_record list \<Rightarrow> extractor \<Rightarrow> extractor" where
  "commit_text L name text_content s =
     extract_tables L
       (s\<lparr>results := (results s)\<lparr>content := content (results s) @ text_content\<rparr>,
          extraction_methods := extraction_methods s @ [name]\<rparr>)"

definition extract_with_pymupdf :: "library \<Rightarrow> extractor \<Rightarrow> bool \<times> extractor" where
  "extract_with_pymupdf L s =
     (case fitz_open L of
        Inl e \<Rightarrow> (False, s)
      | Inr doc \<Rightarrow>
          (case page_loop ''text'' (fz_pages doc) 0 [] of
             Inl e \<Rightarrow> (False, s)
           | Inr text_content \<Rightarrow>
               if text_content \<noteq> [] then (True, commit_text L ''PyMuPDF'' text_content s)
               else (False, s)))"

text \<open>
  The loop over \<open>page.images\<close> in \<open>_extract_with_pdfplumber\<close>: the dictionary of a
  figure is built, key by key, before it is appended to \<open>self.results["figures"]\<close>, so
  a missing key ends the loop with the records of the earlier images in place.
\<close>

fun image_loop :: "image list \<Rightarrow> nat \<Rightarrow> extractor \<Rightarrow> exn option \<times> extractor" where
  "image_loop [] n s = (None, s)"
| "image_loop (img # rest) n s =
     (case getitem img ''bbox'' of
        Inl e \<Rightarrow> (Some e, s)
      | Inr b \<Rightarrow>
          (case getitem img ''width'' of
             Inl e \<Rightarrow> (Some e, s)
           | Inr w \<Rightarrow>
               (case getitem img ''height'' of
                  Inl e \<Rightarrow> (Some e, s)
                | Inr h \<Rightarrow>
                    image_loop rest n
                      (s\<lparr>results := (results s)\<lparr>figures := figures (results s) @
                           [\<lparr>fig_page = int n + 1, fig_bbox = b, fig_width = w,
                             fig_height = h\<rparr>]\<rparr>\<rparr>))))"

text \<open>
  The page loop of \<open>_extract_with_pdfplumber\<close>: the figures go straight into
  \<open>self.results\<close>, so the extractor is threaded through the loop and is returned also
  when an exception ends it.
\<close>

fun plumber_loop ::
  "plumber_page list \<Rightarrow> nat \<Rightarrow> text_record list \<Rightarrow> extractor
     \<Rightarrow> (exn + text_record list) \<times> extractor" where
  "plumber_loop [] n tc s = (Inr tc, s)"
| "plumber_loop (p # ps) n tc s =
     (case pl_extract_text p of
        Inl e \<Rightarrow> (Inl e, s)
      | Inr text \<Rightarrow>
          (case pl_images p of
             Inl e \<Rightarrow> (Inl e, s)
           | Inr imgs \<Rightarrow>
               (case image_loop imgs n s of
                  (Some e, s') \<Rightarrow> (Inl e, s')
                | (None, s') \<Rightarrow>
                    plumber_loop ps (Suc n)
                      (if strip text \<noteq> []
                       then tc @ [\<lparr>rec_page = int n + 1, rec_content = text,
                                   rec_type = ''text''\<rparr>]
                       else tc)
                      s')))"

definition extract_with_pdfplumber :: "library \<Rightarrow> extractor \<Rightarrow> bool \<times> extractor" where
  "extract_with_pdfplumber L s =
     (case plumber_open L of
        Inl e \<Rightarrow> (False, s)
      | Inr pages \<Rightarrow>
          (case plumber_loop pages 0 [] s of
             (Inl e, s') \<Rightarrow> (False, s')
           | (Inr text_content, s') \<Rightarrow>
               if text_content \<noteq> [] then (True, commit_text L ''PDFPlumber'' text_content s')
               else (False, s')))"

text \<open>Both \<open>except\<close> clauses of \<open>_extract_with_pypdf\<close> return \<open>False\<close>.\<close>

definition extract_with_pypdf :: "library \<Rightarrow> extractor \<Rightarrow> bool \<times> extractor" where
  "extract_with_pypdf L s =
     (case pypdf_reader L of
        Inl PdfReadError \<Rightarrow> (False, s)
      | Inl _ \<Rightarrow> (False, s)
      | Inr pages \<Rightarrow>
          (case page_loop ''text'' pages 0 [] of
             Inl PdfReadError \<Rightarrow> (False, s)
           | Inl _ \<Rightarrow> (False, s)
           | Inr text_content \<Rightarrow>
               if text_content \<noteq> [] then (True, commit_text L ''PyPDF'' text_content s)
               else (False, s)))"

text \<open>\<open>_ocr_fallback\<close> sets \<open>is_scanned\<close> and does not extract tables.\<close>

definition ocr_fallback :: "library \<Rightarrow> extractor \<Rightarrow> bool \<times> extractor" where
  "ocr_fallback L s =
     (case ocr_images L of
        Inl e \<Rightarrow> (False, s)
      | Inr images \<Rightarrow>
          (case page_loop ''ocr_text'' images 0 [] of
             Inl e \<Rightarrow> (False, s)
           | Inr text_content \<Rightarrow>
               if text_content \<noteq> []
               then (True, s\<lparr>results := (results s)\<lparr>content :=
                                content (results s) @ text_content\<rparr>,
                              extraction_methods := extraction_methods s @ [''Tesseract OCR''],
                              is_scanned := True\<rparr>)
               else (False, s)))"

subsection \<open>The selector\<close>

text \<open>\<open>for method in methods: if method(): break\<close>\<close>

fun run_methods :: "(extractor \<Rightarrow> bool \<times> extractor) list \<Rightarrow> extractor \<Rightarrow> extractor" where
  "run_methods [] s = s"
| "run_methods (method # rest) s =
     (case method s of (ok, s') \<Rightarrow> if ok then s' else run_methods rest s')"

definition methods :: "library \<Rightarrow> (extractor \<Rightarrow> bool \<times> extractor) list" where
  "methods L =
     [extract_with_pymupdf L, extract_with_pdfplumber L, extract_with_pypdf L, ocr_fallback L]"

text \<open>
  The method \<open>extract\<close> (named \<open>extract_pdf\<close> here, \<open>extract\<close> being a command of
  Isabelle); the result is the extractor, whose \<open>results\<close> field is the dictionary
  that the source returns.
\<close>

definition extract_pdf :: "library \<Rightarrow> extractor \<Rightarrow> exn + extractor" where
  "extract_pdf L s =
     (case extract_metadata L s of
        Inl e \<Rightarrow> Inl e
      | Inr s1 \<Rightarrow> Inr (run_methods (methods L) s1))"

subsection \<open>The content structurer\<close>

definition main_content :: pystr where
  "main_content = py ''Main Content''"

text \<open>
  The body of the inner loop of \<open>_process_content\<close>, on the pair of
  \<open>current_header\<close> and \<open>self.results["headers"]\<close>.
\<close>

definition process_line ::
  "pystr \<Rightarrow> pystr \<times> (pystr \<rightharpoonup> pystr list) \<Rightarrow> pystr \<times> (pystr \<rightharpoonup> pystr list)" where
  "process_line raw st =
     (let line = strip raw; current_header = fst st; hs = snd st
      in if is_header line then (line, hs(line \<mapsto> []))
         else (case hs current_header of
                 Some body \<Rightarrow> (current_header, hs(current_header \<mapsto> body @ [line]))
               | None \<Rightarrow> (current_header, hs(main_content \<mapsto> [line]))))"

definition process_item ::
  "text_record \<Rightarrow> pystr \<times> (pystr \<rightharpoonup> pystr list) \<Rightarrow> pystr \<times> (pystr \<rightharpoonup> pystr list)" where
  "process_item item st = fold process_line (split_nl (rec_content item)) st"

definition process_content :: "extractor \<Rightarrow> extractor" where
  "process_content s =
     s\<lparr>results := (results s)\<lparr>headers :=
        snd (fold process_item (content (results s)) (main_content, headers (results s)))\<rparr>\<rparr>"

subsection \<open>The command line\<close>

text \<open>
  \<open>main\<close> without the parsing of arguments and the printing: a fresh extractor,
  \<open>extract\<close>, then \<open>_process_content\<close>. \<open>Inl\<close> is the exit with code 1.
\<close>

definition main :: "library \<Rightarrow> string \<Rightarrow> exn + extractor" where
  "main L path =
     (case extract_pdf L (init path) of
        Inl e \<Rightarrow> Inl e
      | Inr s \<Rightarrow> Inr (process_content s))"

section \<open>Notions used to state the properties\<close>

text \<open>
  The texts of all pages when every page could be read, \<open>None\<close> when some page
  raised.
\<close>

fun texts_of :: "(exn + pystr) list \<Rightarrow> pystr list option" where
  "texts_of [] = Some []"
| "texts_of (Inl e # ps) = None"
| "texts_of (Inr t # ps) = map_option ((#) t) (texts_of ps)"

text \<open>
  An image dictionary from which a figure record can be built: it has the three keys
  that the source looks up.
\<close>

definition image_complete :: "image \<Rightarrow> bool" where
  "image_complete img \<longleftrightarrow>
     img ''bbox'' \<noteq> None \<and> img ''width'' \<noteq> None \<and> img ''height'' \<noteq> None"

text \<open>
  For PDFPlumber a page is read when its text and its images are returned and every
  image is complete.
\<close>

fun plumber_texts :: "plumber_page list \<Rightarrow> pystr list option" where
  "plumber_texts [] = Some []"
| "plumber_texts (p # ps) =
     (case (pl_extract_text p, pl_images p) of
        (Inr t, Inr imgs) \<Rightarrow>
          if list_all image_complete imgs then map_option ((#) t) (plumber_texts ps) else None
      | _ \<Rightarrow> None)"

text \<open>What each library yields for a candidate that runs to the end of its pages.\<close>

definition pymupdf_texts :: "library \<Rightarrow> pystr list option" where
  "pymupdf_texts L = (case fitz_open L of Inl e \<Rightarrow> None | Inr doc \<Rightarrow> texts_of (fz_pages doc))"

definition pdfplumber_texts :: "library \<Rightarrow> pystr list option" where
  "pdfplumber_texts L = (case plumber_open L of Inl e \<Rightarrow> None | Inr pages \<Rightarrow> plumber_texts pages)"

definition pypdf_texts :: "library \<Rightarrow> pystr list option" where
  "pypdf_texts L = (case pypdf_reader L of Inl e \<Rightarrow> None | Inr pages \<Rightarrow> texts_of pages)"

definition ocr_texts :: "library \<Rightarrow> pystr list option" where
  "ocr_texts L = (case ocr_images L of Inl e \<Rightarrow> None | Inr images \<Rightarrow> texts_of images)"

text \<open>
  A candidate's aggregate output is non-empty: it ran to the end and some page has
  text that is not blank after trimming.
\<close>

definition yields_text :: "pystr list option \<Rightarrow> bool" where
  "yields_text r \<longleftrightarrow> (case r of None \<Rightarrow> False | Some ts \<Rightarrow> list_ex (\<lambda>t. strip t \<noteq> []) ts)"

text \<open>
  The records of the pages with non-blank text, numbered from \<open>n + 1\<close>, in page
  order.
\<close>

definition page_records :: "string \<Rightarrow> nat \<Rightarrow> pystr list \<Rightarrow> text_record list" where
  "page_records tag n ts =
     map (\<lambda>(i, t). \<lparr>rec_page = int i + 1, rec_content = t, rec_type = tag\<rparr>)
       (filter (\<lambda>(i, t). strip t \<noteq> []) (enumerate n ts))"

text \<open>
  The figure records of the images that the PDFPlumber loop gets through before it
  ends or raises: on a page, those of the images before the first incomplete one.
\<close>

fun image_figs :: "image list \<Rightarrow> nat \<Rightarrow> figure_record list" where
  "image_figs [] n = []"
| "image_figs (img # rest) n =
     (case (img ''bbox'', img ''width'', img ''height'') of
        (Some b, Some w, Some h) \<Rightarrow>
          \<lparr>fig_page = int n + 1, fig_bbox = b, fig_width = w, fig_height = h\<rparr>
          # image_figs rest n
      | _ \<Rightarrow> [])"

fun plumber_figs :: "plumber_page list \<Rightarrow> nat \<Rightarrow> figure_record list" where
  "plumber_figs [] n = []"
| "plumber_figs (p # ps) n =
     (case (pl_extract_text p, pl_images p) of
        (Inr t, Inr imgs) \<Rightarrow>
          image_figs imgs n
          @ (if list_all image_complete imgs then plumber_figs ps (Suc n) else [])
      | _ \<Rightarrow> [])"

definition pdfplumber_figs :: "library \<Rightarrow> figure_record list" where
  "pdfplumber_figs L = (case plumber_open L of Inl e \<Rightarrow> [] | Inr pages \<Rightarrow> plumber_figs pages 0)"

text \<open>
  The image dictionaries that pdfplumber makes give the corners and the size of an
  image under the keys \<open>x0\<close>, \<open>y0\<close>, \<open>x1\<close>, \<open>y1\<close>, \<open>top\<close>, \<open>bottom\<close>, \<open>doctop\<close>,
  \<open>width\<close> and \<open>height\<close>, next to keys that describe its stream. There is no key
  \<open>bbox\<close>: this is what \<open>images_lack_bbox\<close> says of the answers of the library.
\<close>

definition page_images :: "plumber_page \<Rightarrow> image list" where
  "page_images p = (case pl_images p of Inl e \<Rightarrow> [] | Inr imgs \<Rightarrow> imgs)"

definition images_lack_bbox :: "library \<Rightarrow> bool" where
  "images_lack_bbox L \<longleftrightarrow>
     (case plumber_open L of
        Inl e \<Rightarrow> True
      | Inr pages \<Rightarrow>
          list_all (\<lambda>p. list_all (\<lambda>img. img ''bbox'' = None) (page_images p)) pages)"

text \<open>The trimmed lines of all page records, in the order the structurer reads them.\<close>

definition content_lines :: "text_record list \<Rightarrow> pystr list" where
  "content_lines items = map strip (concat (map (\<lambda>item. split_nl (rec_content item)) items))"

text \<open>The table records of the two detection methods, stated without loops.\<close>

definition camelot_records :: "camelot_table list \<Rightarrow> table_record list" where
  "camelot_records ts =
     map (\<lambda>t. \<lparr>tbl_method = ''Camelot'', tbl_page = cm_page t,
                tbl_data = to_dict_records (df_columns (cm_df t))
                             (map (map (replace_blank (df_null (cm_df t))))
                                (df_rows (cm_df t)))\<rparr>)
       (filter (\<lambda>t. \<not> df_empty (cm_df t)) ts)"

definition tabula_records :: "dataframe list \<Rightarrow> table_record list" where
  "tabula_records ts =
     map (\<lambda>(i, t). \<lparr>tbl_method = ''Tabula'', tbl_page = int i + 1,
                     tbl_data = to_dict_records (df_columns t) (map (map fillna) (df_rows t))\<rparr>)
       (filter (\<lambda>(i, t). \<not> df_empty t) (enumerate 0 ts))"

text \<open>
  The extractor with figure records appended, and what each table detection method
  contributes: nothing when its call raises.
\<close>

definition append_figures :: "figure_record list \<Rightarrow> extractor \<Rightarrow> extractor" where
  "append_figures figs s = s\<lparr>results := (results s)\<lparr>figures := figures (results s) @ figs\<rparr>\<rparr>"

definition camelot_part :: "library \<Rightarrow> table_record list" where
  "camelot_part L = (case camelot_read_pdf L of Inl e \<Rightarrow> [] | Inr ts \<Rightarrow> camelot_records ts)"

definition tabula_part :: "library \<Rightarrow> table_record list" where
  "tabula_part L = (case tabula_read_pdf L of Inl e \<Rightarrow> [] | Inr ts \<Rightarrow> tabula_records ts)"

subsection \<open>Two documents\<close>

text \<open>
  A born-digital document of two pages, the second one blank, with one ruled table
  on page 2 that both detection methods find, and an empty table before it.
\<close>

definition digital_frame :: dataframe where
  "digital_frame =
     \<lparr>df_columns = [LInt 0, LInt 1],
      df_rows = [[CStr (py ''a''), CStr (py '' '')], [CNull NaN, CStr []]],
      df_null = PyNone\<rparr>"

definition digital_pdf :: library where
  "digital_pdf =
     \<lparr>fitz_open = Inr \<lparr>fz_metadata = [''title'' \<mapsto> MStr (py ''Report'')], fz_page_count = 2,
                        fz_pages = [Inr (py ''intro'' @ [10] @ py ''RESULTS'' @ [10] @ py '' the cat sat ''),
                                    Inr (py ''  '')]\<rparr>,
      plumber_open = Inr [\<lparr>pl_extract_text = Inr (py ''RESULTS''),
                           pl_images = Inr [[''x0'' \<mapsto> VInt 0, ''y0'' \<mapsto> VInt 0,
                                             ''x1'' \<mapsto> VInt 10, ''y1'' \<mapsto> VInt 10,
                                             ''width'' \<mapsto> VInt 10, ''height'' \<mapsto> VInt 10]]\<rparr>],
      pypdf_reader = Inr [Inr (py ''RESULTS'')],
      ocr_images = Inr [Inr (py ''RESULTS'')],
      camelot_read_pdf = Inr [\<lparr>cm_page = 1, cm_df = \<lparr>df_columns = [], df_rows = [], df_null = PyNone\<rparr>\<rparr>,
                              \<lparr>cm_page = 2, cm_df = digital_frame\<rparr>],
      tabula_read_pdf = Inr [\<lparr>df_columns = [], df_rows = [], df_null = PyNone\<rparr>, digital_frame]\<rparr>"

text \<open>
  A scanned document of one page: no text layer, one page image, which pdfplumber
  reports with its corners and its size, a reader that rejects the file, and text
  found by OCR only.
\<close>

definition scanned_pdf :: library where
  "scanned_pdf =
     \<lparr>fitz_open = Inr \<lparr>fz_metadata = Map.empty, fz_page_count = 1, fz_pages = [Inr []]\<rparr>,
      plumber_open = Inr [\<lparr>pl_extract_text = Inr [],
                           pl_images = Inr [[''x0'' \<mapsto> VInt 0, ''y0'' \<mapsto> VInt 0,
                                             ''x1'' \<mapsto> VInt 612, ''y1'' \<mapsto> VInt 792,
                                             ''width'' \<mapsto> VInt 612, ''height'' \<mapsto> VInt 792]]\<rparr>],
      pypdf_reader = Inl PdfReadError,
      ocr_images = Inr [Inr (py ''scan'')],
      camelot_read_pdf = Inl OtherException,
      tabula_read_pdf = Inr []\<rparr>"

text \<open>
  The born-digital document again, as a second set of library answers: PDFPlumber sees
  another image and the alternate reader returns another text; the other answers are
  the same.
\<close>

definition digital_pdf_plain :: library where
  "digital_pdf_plain =
     digital_pdf\<lparr>plumber_open := Inr [\<lparr>pl_extract_text = Inr (py ''RESULTS''),
                                        pl_images = Inr [[''width'' \<mapsto> VInt 5,
                                                          ''height'' \<mapsto> VInt 5]]\<rparr>],
                 pypdf_reader := Inr [Inr (py ''OTHER'')]\<rparr>"

text \<open>
  An extractor as the structurer finds it: one page of four lines, the third one a
  heading, and no header yet.
\<close>

definition structurer_input :: extractor where
  "structurer_input =
     (init ''report.pdf'')\<lparr>results := (results (init ''report.pdf''))\<lparr>content :=
        [\<lparr>rec_page = 1,
          rec_content = py ''intro'' @ [10] @ py '' the cat sat '' @ [10] @ py ''RESULTS'' @ [10]
                        @ py ''after'',
          rec_type = ''text''\<rparr>]\<rparr>\<rparr>"

section \<open>The loops and the strategies in closed form\<close>

lemma page_records_Nil [simp]: "page_records tag n [] = []"
  by (simp add: page_records_def)

lemma page_records_Cons:
  "page_records tag n (t # ts) =
     (if strip t \<noteq> [] then [\<lparr>rec_page = int n + 1, rec_content = t, rec_type = tag\<rparr>] else [])
     @ page_records tag (Suc n) ts"
  by (simp add: page_records_def)

lemma page_records_empty_iff:
  "page_records tag n ts \<noteq> [] \<longleftrightarrow> list_ex (\<lambda>t. strip t \<noteq> []) ts"
  by (induction ts arbitrary: n) (auto simp: page_records_Cons)

lemma page_loop_Some:
  "texts_of ps = Some ts \<Longrightarrow> page_loop tag ps n tc = Inr (tc @ page_records tag n ts)"
proof (induction ps arbitrary: n tc ts)
  case Nil
  then show ?case by simp
next
  case (Cons p ps)
  then show ?case
    by (cases p) (auto simp: page_records_Cons)
qed

lemma page_loop_None:
  "texts_of ps = None \<Longrightarrow> \<exists>e. page_loop tag ps n tc = Inl e"
proof (induction ps arbitrary: n tc)
  case Nil
  then show ?case by simp
next
  case (Cons p ps)
  then show ?case by (cases p) auto
qed

lemma append_figures_Nil [simp]: "append_figures [] s = s"
  by (simp add: append_figures_def)

lemma append_figures_append:
  "append_figures b (append_figures a s) = append_figures (a @ b) s"
  by (simp add: append_figures_def)

lemma image_loop_eq:
  "image_loop imgs n s =
     (if list_all image_complete imgs then None else Some KeyError,
      append_figures (image_figs imgs n) s)"
proof (induction imgs arbitrary: s)
  case Nil
  then show ?case by simp
next
  case (Cons img rest)
  show ?case
  proof (cases "image_complete img")
    case False
    then show ?thesis
      by (auto simp: image_complete_def getitem_def split: option.splits)
  next
    case True
    then obtain b w h where
      "img ''bbox'' = Some b" "img ''width'' = Some w" "img ''height'' = Some h"
      by (auto simp: image_complete_def)
    with True Cons.IH show ?thesis
      by (simp add: getitem_def append_figures_def)
  qed
qed

lemma plumber_loop_snd:
  "snd (plumber_loop ps n tc s) = append_figures (plumber_figs ps n) s"
proof (induction ps arbitrary: n tc s)
  case Nil
  then show ?case by simp
next
  case (Cons p ps)
  show ?case
  proof (cases "pl_extract_text p")
    case (Inl e)
    then show ?thesis by simp
  next
    case t: (Inr t)
    show ?thesis
    proof (cases "pl_images p")
      case (Inl e)
      with t show ?thesis by simp
    next
      case (Inr imgs)
      with t Cons.IH show ?thesis
        by (simp add: image_loop_eq append_figures_append)
    qed
  qed
qed

lemma plumber_loop_Some:
  "plumber_texts ps = Some ts \<Longrightarrow>
   fst (plumber_loop ps n tc s) = Inr (tc @ page_records ''text'' n ts)"
proof (induction ps arbitrary: n tc s ts)
  case Nil
  then show ?case by simp
next
  case (Cons p ps)
  then show ?case
    by (auto simp: page_records_Cons image_loop_eq split: sum.splits if_splits)
qed

lemma plumber_loop_None:
  "plumber_texts ps = None \<Longrightarrow> \<exists>e. fst (plumber_loop ps n tc s) = Inl e"
proof (induction ps arbitrary: n tc s)
  case Nil
  then show ?case by simp
next
  case (Cons p ps)
  then show ?case
    by (auto simp: image_loop_eq split: sum.splits if_splits)
qed

lemma image_figs_lack_bbox:
  "list_all (\<lambda>img. img ''bbox'' = None) imgs \<Longrightarrow> image_figs imgs n = []"
  by (cases imgs) simp_all

lemma plumber_figs_lack_bbox:
  "list_all (\<lambda>p. list_all (\<lambda>img. img ''bbox'' = None) (page_images p)) ps \<Longrightarrow>
   plumber_figs ps n = []"
proof (induction ps arbitrary: n)
  case Nil
  then show ?case by simp
next
  case (Cons p ps)
  then show ?case
    by (auto simp: page_images_def image_figs_lack_bbox split: sum.splits)
qed

lemma pdfplumber_figs_lack_bbox: "images_lack_bbox L \<Longrightarrow> pdfplumber_figs L = []"
  by (auto simp: images_lack_bbox_def pdfplumber_figs_def plumber_figs_lack_bbox
      split: sum.splits)

lemma camelot_loop_eq: "camelot_loop ts acc = acc @ camelot_records ts"
  by (induction ts arbitrary: acc) (simp_all add: camelot_records_def)

lemma tabula_loop_eq:
  "tabula_loop ts i acc =
     acc @ map (\<lambda>(i, t). \<lparr>tbl_method = ''Tabula'', tbl_page = int i + 1,
                     tbl_data = to_dict_records (df_columns t) (map (map fillna) (df_rows t))\<rparr>)
       (filter (\<lambda>(i, t). \<not> df_empty t) (enumerate i ts))"
  by (induction ts arbitrary: i acc) simp_all

lemma extract_tables_eq:
  "extract_tables L s =
     s\<lparr>results := (results s)\<lparr>tables := tables (results s) @ camelot_part L @ tabula_part L\<rparr>\<rparr>"
  by (simp add: extract_tables_def camelot_part_def tabula_part_def camelot_loop_eq
      tabula_loop_eq tabula_records_def split: sum.splits)

lemma commit_text_eq:
  "commit_text L name tc s =
     s\<lparr>results := (results s)\<lparr>content := content (results s) @ tc,
           tables := tables (results s) @ camelot_part L @ tabula_part L\<rparr>,
       extraction_methods := extraction_methods s @ [name]\<rparr>"
  by (simp add: commit_text_def extract_tables_eq)

lemma yields_text_Some: "yields_text (Some ts) \<longleftrightarrow> list_ex (\<lambda>t. strip t \<noteq> []) ts"
  by (simp add: yields_text_def)

lemma yields_text_None [simp]: "\<not> yields_text None"
  by (simp add: yields_text_def)

lemma extract_with_pymupdf_eq:
  "extract_with_pymupdf L s =
     (if yields_text (pymupdf_texts L)
      then (True, commit_text L ''PyMuPDF'' (page_records ''text'' 0 (the (pymupdf_texts L))) s)
      else (False, s))"
proof (cases "fitz_open L")
  case (Inl e)
  then show ?thesis by (simp add: extract_with_pymupdf_def pymupdf_texts_def)
next
  case (Inr doc)
  show ?thesis
  proof (cases "texts_of (fz_pages doc)")
    case None
    from page_loop_None [where tag = "''text''" and n = 0 and tc = "[]", OF this]
    obtain e where "page_loop ''text'' (fz_pages doc) 0 [] = Inl e"
      by blast
    with Inr None show ?thesis by (simp add: extract_with_pymupdf_def pymupdf_texts_def)
  next
    case (Some ts)
    from page_loop_Some [where n = 0 and tc = "[]", OF this] have "page_loop ''text'' (fz_pages doc) 0 [] = Inr (page_records ''text'' 0 ts)"
      by simp
    with Inr Some show ?thesis
      by (simp add: extract_with_pymupdf_def pymupdf_texts_def yields_text_Some page_records_empty_iff)
  qed
qed

lemma extract_with_pypdf_eq:
  "extract_with_pypdf L s =
     (if yields_text (pypdf_texts L)
      then (True, commit_text L ''PyPDF'' (page_records ''text'' 0 (the (pypdf_texts L))) s)
      else (False, s))"
proof (cases "pypdf_reader L")
  case (Inl e)
  then show ?thesis by (cases e) (simp_all add: extract_with_pypdf_def pypdf_texts_def)
next
  case (Inr pages)
  show ?thesis
  proof (cases "texts_of pages")
    case None
    from page_loop_None [where tag = "''text''" and n = 0 and tc = "[]", OF this]
    obtain e where "page_loop ''text'' pages 0 [] = Inl e"
      by blast
    with Inr None show ?thesis by (cases e) (simp_all add: extract_with_pypdf_def pypdf_texts_def)
  next
    case (Some ts)
    from page_loop_Some [where n = 0 and tc = "[]", OF this] have "page_loop ''text'' pages 0 [] = Inr (page_records ''text'' 0 ts)"
      by simp
    with Inr Some show ?thesis
      by (simp add: extract_with_pypdf_def pypdf_texts_def yields_text_Some page_records_empty_iff)
  qed
qed

lemma ocr_fallback_eq:
  "ocr_fallback L s =
     (if yields_text (ocr_texts L)
      then (True, s\<lparr>results := (results s)\<lparr>content := content (results s) @
                        page_records ''ocr_text'' 0 (the (ocr_texts L))\<rparr>,
                    extraction_methods := extraction_methods s @ [''Tesseract OCR''],
                    is_scanned := True\<rparr>)
      else (False, s))"
proof (cases "ocr_images L")
  case (Inl e)
  then show ?thesis by (simp add: ocr_fallback_def ocr_texts_def)
next
  case (Inr images)
  show ?thesis
  proof (cases "texts_of images")
    case None
    from page_loop_None [where tag = "''ocr_text''" and n = 0 and tc = "[]", OF this]
    obtain e where "page_loop ''ocr_text'' images 0 [] = Inl e"
      by blast
    with Inr None show ?thesis by (simp add: ocr_fallback_def ocr_texts_def)
  next
    case (Some ts)
    from page_loop_Some [where n = 0 and tc = "[]", OF this] have "page_loop ''ocr_text'' images 0 [] = Inr (page_records ''ocr_text'' 0 ts)"
      by simp
    with Inr Some show ?thesis
      by (simp add: ocr_fallback_def ocr_texts_def yields_text_Some page_records_empty_iff)
  qed
qed

lemma extract_with_pdfplumber_eq:
  "extract_with_pdfplumber L s =
     (if yields_text (pdfplumber_texts L)
      then (True, commit_text L ''PDFPlumber'' (page_records ''text'' 0 (the (pdfplumber_texts L)))
                    (append_figures (pdfplumber_figs L) s))
      else (False, append_figures (pdfplumber_figs L) s))"
proof (cases "plumber_open L")
  case (Inl e)
  then show ?thesis by (simp add: extract_with_pdfplumber_def pdfplumber_texts_def pdfplumber_figs_def)
next
  case (Inr pages)
  obtain r s' where loop: "plumber_loop pages 0 [] s = (r, s')"
    by (cases "plumber_loop pages 0 [] s")
  with plumber_loop_snd [of pages 0 "[]" s] have s': "s' = append_figures (plumber_figs pages 0) s"
    by simp
  show ?thesis
  proof (cases "plumber_texts pages")
    case None
    from plumber_loop_None [where n = 0 and tc = "[]" and s = s, OF this] loop
    obtain e where "r = Inl e"
      by auto
    with Inr None loop s' show ?thesis
      by (simp add: extract_with_pdfplumber_def pdfplumber_texts_def pdfplumber_figs_def)
  next
    case (Some ts)
    from plumber_loop_Some [where n = 0 and tc = "[]" and s = s, OF this] loop have "r = Inr (page_records ''text'' 0 ts)"
      by simp
    with Inr Some loop s' show ?thesis
      by (simp add: extract_with_pdfplumber_def pdfplumber_texts_def pdfplumber_figs_def
          yields_text_Some page_records_empty_iff)
  qed
qed

section \<open>The selector in closed form\<close>

lemma run_methods_eq:
  "run_methods (methods L) s =
     (if yields_text (pymupdf_texts L)
      then commit_text L ''PyMuPDF'' (page_records ''text'' 0 (the (pymupdf_texts L))) s
      else if yields_text (pdfplumber_texts L)
      then commit_text L ''PDFPlumber'' (page_records ''text'' 0 (the (pdfplumber_texts L)))
             (append_figures (pdfplumber_figs L) s)
      else if yields_text (pypdf_texts L)
      then commit_text L ''PyPDF'' (page_records ''text'' 0 (the (pypdf_texts L)))
             (append_figures (pdfplumber_figs L) s)
      else if yields_text (ocr_texts L)
      then (append_figures (pdfplumber_figs L) s)
             \<lparr>results := (results (append_figures (pdfplumber_figs L) s))\<lparr>content :=
                  content (results (append_figures (pdfplumber_figs L) s)) @
                  page_records ''ocr_text'' 0 (the (ocr_texts L))\<rparr>,
              extraction_methods :=
                extraction_methods (append_figures (pdfplumber_figs L) s) @ [''Tesseract OCR''],
              is_scanned := True\<rparr>
      else append_figures (pdfplumber_figs L) s)"
  by (simp add: methods_def extract_with_pymupdf_eq extract_with_pdfplumber_eq
      extract_with_pypdf_eq ocr_fallback_eq)

lemma extract_pdf_Inr:
  "extract_pdf L s = Inr s' \<Longrightarrow>
   \<exists>md. s' = run_methods (methods L) (s\<lparr>results := (results s)\<lparr>metadata := md\<rparr>\<rparr>)"
  by (auto simp: extract_pdf_def extract_metadata_def split: sum.splits)

lemma yields_text_the: "yields_text r \<Longrightarrow> r = Some (the r)"
  by (cases r) simp_all

section \<open>The scanned flag\<close>

text \<open>
  C3: after a run on a fresh extractor, \<open>is_scanned\<close> is true if and only if the OCR
  fallback is the strategy that succeeded, that is, none of the three digital
  strategies yields text and OCR does; equivalently, if and only if the only
  recorded method is the OCR one. It is false when a digital strategy succeeds and
  when all four yield nothing.
\<close>
theorem is_scanned_iff_ocr_selected:
  assumes "extract_pdf L (init path) = Inr s"
  shows "(is_scanned s \<longleftrightarrow>
            \<not> yields_text (pymupdf_texts L) \<and> \<not> yields_text (pdfplumber_texts L) \<and>
            \<not> yields_text (pypdf_texts L) \<and> yields_text (ocr_texts L)) \<and>
         (is_scanned s \<longleftrightarrow> extraction_methods s = [''Tesseract OCR''])"
proof -
  from extract_pdf_Inr [OF assms] obtain md where
    s: "s = run_methods (methods L) ((init path)\<lparr>results := (results (init path))\<lparr>metadata := md\<rparr>\<rparr>)"
    by blast
  show ?thesis
    unfolding s run_methods_eq
    by (simp add: commit_text_eq append_figures_def init_def)
qed

lemmas eval_run = extract_pdf_def extract_metadata_def methods_def extract_with_pymupdf_def
  extract_with_pdfplumber_def extract_with_pypdf_def ocr_fallback_def commit_text_def
  extract_tables_def init_def meta_get_def getitem_def strip_def py_def uni_space_def
  df_empty_def to_dict_records_def

lemma scanned_run:
  "extract_pdf scanned_pdf (init ''scan.pdf'') =
     Inr \<lparr>pdf_path = ''scan.pdf'',
          results = \<lparr>metadata = [(''title'', MStr []), (''author'', MStr []), (''creator'', MStr []),
                                  (''creation_date'', MStr []), (''modification_date'', MStr []),
                                  (''page_count'', MInt 1)],
                     headers = Map.empty,
                     content = [\<lparr>rec_page = 1, rec_content = py ''scan'', rec_type = ''ocr_text''\<rparr>],
                     list_items = [], tables = [], figures = []\<rparr>,
          extraction_methods = [''Tesseract OCR''], is_scanned = True,
          ocr_engine = ''Tesseract''\<rparr>"
  by (simp add: eval_run scanned_pdf_def)

theorem is_scanned_iff_ocr_selected_witness:
  "extract_pdf scanned_pdf (init ''scan.pdf'') = Inr (projr (extract_pdf scanned_pdf (init ''scan.pdf'')))
   \<and> is_scanned (projr (extract_pdf scanned_pdf (init ''scan.pdf'')))
   \<and> yields_text (ocr_texts scanned_pdf)
   \<and> \<not> yields_text (pymupdf_texts scanned_pdf)"
proof -
  have run: "extract_pdf scanned_pdf (init ''scan.pdf'')
               = Inr (projr (extract_pdf scanned_pdf (init ''scan.pdf'')))"
    by (simp add: scanned_run)
  have "is_scanned (projr (extract_pdf scanned_pdf (init ''scan.pdf'')))"
    by (simp add: scanned_run)
  with is_scanned_iff_ocr_selected [OF run] run show ?thesis
    by simp
qed

section \<open>Heading detection\<close>

lemmas eval_header = is_header_def header_patterns_def re_match_def Seq_def Plus_def py_def
  upper_az_def lower_az_def uni_space_def uni_decimal_def decimal_blocks_def

text \<open>
  C7: the line "1. Introduction" is a heading, "the cat sat" is not, the all-caps
  lines "RESULTS" and "RESULTS:" are headings; and a line whose trimmed form is a
  heading becomes the current header, with its body list set to the empty list.
\<close>
theorem heading_classifier:
  "is_header (py ''1. Introduction'') \<and> \<not> is_header (py ''the cat sat'') \<and>
   is_header (py ''RESULTS'') \<and> is_header (py ''RESULTS:'') \<and>
   (\<forall>raw current_header hs. is_header (strip raw) \<longrightarrow>
      process_line raw (current_header, hs) = (strip raw, hs(strip raw \<mapsto> [])))"
proof -
  have "is_header (py ''1. Introduction'')" by (simp add: eval_header)
  moreover have "\<not> is_header (py ''the cat sat'')" by (simp add: eval_header)
  moreover have "is_header (py ''RESULTS'')" by (simp add: eval_header)
  moreover have "is_header (py ''RESULTS:'')" by (simp add: eval_header)
  moreover have "\<forall>raw current_header hs. is_header (strip raw) \<longrightarrow>
      process_line raw (current_header, hs) = (strip raw, hs(strip raw \<mapsto> []))"
    by (simp add: process_line_def Let_def)
  ultimately show ?thesis by blast
qed

theorem heading_classifier_witness:
  "is_header (strip (py ''  RESULTS: '')) \<and>
   process_line (py ''  RESULTS: '') (main_content, Map.empty)
     = (py ''RESULTS:'', [py ''RESULTS:'' \<mapsto> []])"
proof -
  have s: "strip (py ''  RESULTS: '') = py ''RESULTS:''"
    by (simp add: strip_def py_def uni_space_def)
  have h: "is_header (strip (py ''  RESULTS: ''))"
    unfolding s by (simp add: eval_header)
  from heading_classifier h
  have "process_line (py ''  RESULTS: '') (main_content, Map.empty)
          = (strip (py ''  RESULTS: ''), [strip (py ''  RESULTS: '') \<mapsto> []])"
    by blast
  with h s show ?thesis by simp
qed

section \<open>Whole runs\<close>

lemma extract_metadata_Inr:
  "extract_metadata L s = Inr s' \<Longrightarrow> \<exists>md. s' = s\<lparr>results := (results s)\<lparr>metadata := md\<rparr>\<rparr>"
  by (auto simp: extract_metadata_def split: sum.splits)

lemma main_Inr:
  "main L path = Inr s \<Longrightarrow>
   \<exists>md. s = process_content
             (run_methods (methods L) ((init path)\<lparr>results := (results (init path))\<lparr>metadata := md\<rparr>\<rparr>))"
  by (auto simp: main_def dest: extract_pdf_Inr split: sum.splits)

lemma run_methods_stop: "fst (candidate s) \<Longrightarrow> run_methods (candidate # rest) s = snd (candidate s)"
  by (cases "candidate s") simp

lemma run_methods_next:
  "\<not> fst (candidate s) \<Longrightarrow> run_methods (candidate # rest) s = run_methods rest (snd (candidate s))"
  by (cases "candidate s") simp

lemma page_records_type: "r \<in> set (page_records tag n ts) \<Longrightarrow> rec_type r = tag"
  by (auto simp: page_records_def)

section \<open>The reserved field\<close>

text \<open>
  C8: at the end of every run of the pipeline \<open>list_items\<close> is the empty list: it is
  created empty, and the metadata reader, each of the four strategies, the table
  extractor and the content structurer leave it as it is.
\<close>
theorem list_items_always_empty:
  "(main L path = Inr s \<longrightarrow> list_items (results s) = []) \<and>
   list_items (results (init path)) = [] \<and>
   (extract_metadata L s0 = Inr s1 \<longrightarrow> list_items (results s1) = list_items (results s0)) \<and>
   list_items (results (snd (extract_with_pymupdf L s0))) = list_items (results s0) \<and>
   list_items (results (snd (extract_with_pdfplumber L s0))) = list_items (results s0) \<and>
   list_items (results (snd (extract_with_pypdf L s0))) = list_items (results s0) \<and>
   list_items (results (snd (ocr_fallback L s0))) = list_items (results s0) \<and>
   list_items (results (extract_tables L s0)) = list_items (results s0) \<and>
   list_items (results (process_content s0)) = list_items (results s0)"
proof -
  have "list_items (results s) = []" if "main L path = Inr s"
  proof -
    from main_Inr [OF that] obtain md where
      s: "s = process_content (run_methods (methods L)
                ((init path)\<lparr>results := (results (init path))\<lparr>metadata := md\<rparr>\<rparr>))"
      by blast
    show ?thesis
      unfolding s run_methods_eq
      by (simp add: process_content_def commit_text_eq append_figures_def init_def)
  qed
  moreover have "list_items (results s1) = list_items (results s0)"
    if "extract_metadata L s0 = Inr s1"
    using extract_metadata_Inr [OF that] by auto
  moreover have "list_items (results (init path)) = []"
    by (simp add: init_def)
  moreover have "list_items (results (snd (extract_with_pymupdf L s0))) = list_items (results s0)"
    by (simp add: extract_with_pymupdf_eq commit_text_eq)
  moreover have "list_items (results (snd (extract_with_pdfplumber L s0))) = list_items (results s0)"
    by (simp add: extract_with_pdfplumber_eq commit_text_eq append_figures_def)
  moreover have "list_items (results (snd (extract_with_pypdf L s0))) = list_items (results s0)"
    by (simp add: extract_with_pypdf_eq commit_text_eq)
  moreover have "list_items (results (snd (ocr_fallback L s0))) = list_items (results s0)"
    by (simp add: ocr_fallback_eq)
  moreover have "list_items (results (extract_tables L s0)) = list_items (results s0)"
    by (simp add: extract_tables_eq)
  moreover have "list_items (results (process_content s0)) = list_items (results s0)"
    by (simp add: process_content_def)
  ultimately show ?thesis by blast
qed

lemma digital_run_methods:
  "extraction_methods (projr (main digital_pdf ''report.pdf'')) = [''PyMuPDF''] \<and>
   \<not> isl (main digital_pdf ''report.pdf'')"
  by (simp add: main_def process_content_def eval_run digital_pdf_def digital_frame_def)

theorem list_items_always_empty_witness:
  "main digital_pdf ''report.pdf'' = Inr (projr (main digital_pdf ''report.pdf'')) \<and>
   list_items (results (projr (main digital_pdf ''report.pdf''))) = []"
proof -
  have run: "main digital_pdf ''report.pdf'' = Inr (projr (main digital_pdf ''report.pdf''))"
    using digital_run_methods by (cases "main digital_pdf ''report.pdf''") simp_all
  with list_items_always_empty [of digital_pdf "''report.pdf''"] show ?thesis
    by blast
qed

section \<open>Who writes the figures\<close>

lemma scanned_main:
  "\<not> isl (main scanned_pdf ''scan.pdf'') \<and>
   extraction_methods (projr (main scanned_pdf ''scan.pdf'')) = [''Tesseract OCR''] \<and>
   figures (results (projr (main scanned_pdf ''scan.pdf''))) = []"
  by (simp add: main_def scanned_run process_content_def)

lemma scanned_yields:
  "\<not> yields_text (pymupdf_texts scanned_pdf) \<and> \<not> yields_text (pdfplumber_texts scanned_pdf) \<and>
   \<not> yields_text (pypdf_texts scanned_pdf) \<and> yields_text (ocr_texts scanned_pdf)"
  by (simp add: yields_text_def pymupdf_texts_def pdfplumber_texts_def pypdf_texts_def
      ocr_texts_def scanned_pdf_def image_complete_def strip_def py_def uni_space_def)

lemma scanned_lacks_bbox: "images_lack_bbox scanned_pdf"
  by (simp add: images_lack_bbox_def scanned_pdf_def page_images_def)

text \<open>
  C9: \<open>figures\<close> is written by the page loop of the PDFPlumber strategy only: the
  metadata reader, the other strategies, the table extractor and the structurer leave
  it as it is, PDFPlumber appends to it, and it is empty at the end of a run in which
  PyMuPDF succeeds. The claim adds that the field can be non-empty after a run in which
  PDFPlumber was not selected, its records being left behind by a candidate that
  returns failure. The code does not get there: a figure record needs
  \<open>image["bbox"]\<close>, the image dictionaries of pdfplumber have no such key, so the lookup
  raises before anything is appended and PDFPlumber leaves \<open>figures\<close> as it was;
  \<open>figures\<close> is empty at the end of every run.
\<close>
theorem figures_frame_and_missing_bbox:
  "(extract_metadata L s0 = Inr s1 \<longrightarrow> figures (results s1) = figures (results s0)) \<and>
   figures (results (snd (extract_with_pymupdf L s0))) = figures (results s0) \<and>
   figures (results (snd (extract_with_pypdf L s0))) = figures (results s0) \<and>
   figures (results (snd (ocr_fallback L s0))) = figures (results s0) \<and>
   figures (results (extract_tables L s0)) = figures (results s0) \<and>
   figures (results (process_content s0)) = figures (results s0) \<and>
   figures (results (snd (extract_with_pdfplumber L s0))) = figures (results s0) @ pdfplumber_figs L \<and>
   (main L path = Inr s \<and> yields_text (pymupdf_texts L) \<longrightarrow> figures (results s) = []) \<and>
   (images_lack_bbox L \<longrightarrow> pdfplumber_figs L = []) \<and>
   (images_lack_bbox L \<longrightarrow>
      figures (results (snd (extract_with_pdfplumber L s0))) = figures (results s0)) \<and>
   (main L path = Inr s \<and> images_lack_bbox L \<longrightarrow> figures (results s) = [])"
proof -
  have "figures (results s1) = figures (results s0)" if "extract_metadata L s0 = Inr s1"
    using extract_metadata_Inr [OF that] by auto
  moreover have "figures (results (snd (extract_with_pymupdf L s0))) = figures (results s0)"
    by (simp add: extract_with_pymupdf_eq commit_text_eq)
  moreover have "figures (results (snd (extract_with_pypdf L s0))) = figures (results s0)"
    by (simp add: extract_with_pypdf_eq commit_text_eq)
  moreover have "figures (results (snd (ocr_fallback L s0))) = figures (results s0)"
    by (simp add: ocr_fallback_eq)
  moreover have "figures (results (extract_tables L s0)) = figures (results s0)"
    by (simp add: extract_tables_eq)
  moreover have "figures (results (process_content s0)) = figures (results s0)"
    by (simp add: process_content_def)
  moreover have app: "figures (results (snd (extract_with_pdfplumber L s0)))
                   = figures (results s0) @ pdfplumber_figs L"
    by (simp add: extract_with_pdfplumber_eq commit_text_eq append_figures_def)
  moreover have run: "figures (results s) = (if yields_text (pymupdf_texts L) then [] else pdfplumber_figs L)"
    if "main L path = Inr s"
  proof -
    from main_Inr [OF that] obtain md where
      s: "s = process_content (run_methods (methods L)
                ((init path)\<lparr>results := (results (init path))\<lparr>metadata := md\<rparr>\<rparr>))"
      by blast
    show ?thesis
      unfolding s run_methods_eq
      by (simp add: process_content_def commit_text_eq append_figures_def init_def)
  qed
  moreover have "figures (results (snd (extract_with_pdfplumber L s0))) = figures (results s0)"
    if "images_lack_bbox L"
    using app pdfplumber_figs_lack_bbox [OF that] by simp
  moreover have "figures (results s) = []" if "main L path = Inr s" "images_lack_bbox L"
    using run [OF that(1)] pdfplumber_figs_lack_bbox [OF that(2)] by simp
  ultimately show ?thesis
    using pdfplumber_figs_lack_bbox [of L] by simp
qed

theorem figures_frame_and_missing_bbox_witness:
  "main scanned_pdf ''scan.pdf'' = Inr (projr (main scanned_pdf ''scan.pdf'')) \<and>
   images_lack_bbox scanned_pdf \<and>
   pdfplumber_texts scanned_pdf = None \<and>
   \<not> fst (extract_with_pdfplumber scanned_pdf (init ''scan.pdf'')) \<and>
   extraction_methods (projr (main scanned_pdf ''scan.pdf'')) = [''Tesseract OCR''] \<and>
   figures (results (projr (main scanned_pdf ''scan.pdf''))) = []"
proof -
  have run: "main scanned_pdf ''scan.pdf'' = Inr (projr (main scanned_pdf ''scan.pdf''))"
    using scanned_main by (cases "main scanned_pdf ''scan.pdf''") simp_all
  have raised: "pdfplumber_texts scanned_pdf = None"
    by (simp add: pdfplumber_texts_def scanned_pdf_def image_complete_def)
  have failed: "\<not> fst (extract_with_pdfplumber scanned_pdf (init ''scan.pdf''))"
    by (simp add: extract_with_pdfplumber_eq scanned_yields)
  from figures_frame_and_missing_bbox [of scanned_pdf _ _ "''scan.pdf''"
      "projr (main scanned_pdf ''scan.pdf'')"] run scanned_lacks_bbox
  have "figures (results (projr (main scanned_pdf ''scan.pdf''))) = []"
    by blast
  with run scanned_lacks_bbox raised failed scanned_main show ?thesis
    by blast
qed

section \<open>When a candidate is accepted\<close>

lemma filter_enumerate_index:
  "map fst (filter (\<lambda>(i, x). P x) (enumerate n xs)) =
     filter (\<lambda>i. P (xs ! (i - n))) [n..<n + length xs]"
proof (induction xs arbitrary: n)
  case Nil
  then show ?case by simp
next
  case (Cons x xs)
  have tl: "filter (\<lambda>i. P ((x # xs) ! (i - n))) [Suc n..<Suc n + length xs] =
            filter (\<lambda>i. P (xs ! (i - Suc n))) [Suc n..<Suc n + length xs]"
  proof (rule filter_cong [OF refl])
    fix i
    assume "i \<in> set [Suc n..<Suc n + length xs]"
    then have "i - n = Suc (i - Suc n)" by auto
    then show "P ((x # xs) ! (i - n)) = P (xs ! (i - Suc n))" by simp
  qed
  have "[n..<n + length (x # xs)] = n # [Suc n..<Suc n + length xs]"
    using upt_conv_Cons [of n "n + length (x # xs)"] by simp
  with Cons.IH [of "Suc n"] tl show ?case
    by simp
qed









section \<open>One strategy per run\<close>

text \<open>
  C1: after a run of the pipeline, \<open>content\<close> is empty or holds the records of
  exactly one strategy, the one whose name was recorded; every record is tagged
  "ocr_text" when that strategy is the OCR fallback and "text" when it is one of the
  three digital strategies, so records of two strategies are never mixed. The selector
  stops at the first candidate that returns success: the candidates after it have no
  effect.
\<close>
theorem content_from_one_strategy:
  "(main L path = Inr s \<longrightarrow>
      (extraction_methods s = [] \<and> content (results s) = []) \<or>
      (extraction_methods s = [''PyMuPDF''] \<and>
         (\<exists>ts. pymupdf_texts L = Some ts \<and> content (results s) = page_records ''text'' 0 ts)) \<or>
      (extraction_methods s = [''PDFPlumber''] \<and>
         (\<exists>ts. pdfplumber_texts L = Some ts \<and> content (results s) = page_records ''text'' 0 ts)) \<or>
      (extraction_methods s = [''PyPDF''] \<and>
         (\<exists>ts. pypdf_texts L = Some ts \<and> content (results s) = page_records ''text'' 0 ts)) \<or>
      (extraction_methods s = [''Tesseract OCR''] \<and>
         (\<exists>ts. ocr_texts L = Some ts \<and> content (results s) = page_records ''ocr_text'' 0 ts))) \<and>
   (main L path = Inr s \<longrightarrow>
      (\<forall>rec\<in>set (content (results s)).
         rec_type rec = (if extraction_methods s = [''Tesseract OCR''] then ''ocr_text'' else ''text''))) \<and>
   (fst (candidate s0) \<longrightarrow> run_methods (candidate # rest) s0 = snd (candidate s0))"
proof -
  have run: "(extraction_methods s = [] \<and> content (results s) = []) \<or>
      (extraction_methods s = [''PyMuPDF''] \<and>
         (\<exists>ts. pymupdf_texts L = Some ts \<and> content (results s) = page_records ''text'' 0 ts)) \<or>
      (extraction_methods s = [''PDFPlumber''] \<and>
         (\<exists>ts. pdfplumber_texts L = Some ts \<and> content (results s) = page_records ''text'' 0 ts)) \<or>
      (extraction_methods s = [''PyPDF''] \<and>
         (\<exists>ts. pypdf_texts L = Some ts \<and> content (results s) = page_records ''text'' 0 ts)) \<or>
      (extraction_methods s = [''Tesseract OCR''] \<and>
         (\<exists>ts. ocr_texts L = Some ts \<and> content (results s) = page_records ''ocr_text'' 0 ts))"
    if "main L path = Inr s"
  proof -
    from main_Inr [OF that] obtain md where
      s: "s = process_content (run_methods (methods L)
                ((init path)\<lparr>results := (results (init path))\<lparr>metadata := md\<rparr>\<rparr>))"
      by blast
    show ?thesis
      unfolding s run_methods_eq
      by (auto simp: process_content_def commit_text_eq append_figures_def init_def
          dest: yields_text_the)
  qed
  have tags: "\<forall>rec\<in>set (content (results s)).
         rec_type rec = (if extraction_methods s = [''Tesseract OCR''] then ''ocr_text'' else ''text'')"
    if "main L path = Inr s"
    using run [OF that] by (auto dest: page_records_type)
  from run tags run_methods_stop [of candidate s0 rest] show ?thesis
    by blast
qed

lemma scanned_content:
  "content (results (projr (main scanned_pdf ''scan.pdf''))) =
     [\<lparr>rec_page = 1, rec_content = py ''scan'', rec_type = ''ocr_text''\<rparr>]"
  by (simp add: main_def scanned_run process_content_def)

theorem content_from_one_strategy_witness:
  "main scanned_pdf ''scan.pdf'' = Inr (projr (main scanned_pdf ''scan.pdf'')) \<and>
   extraction_methods (projr (main scanned_pdf ''scan.pdf'')) = [''Tesseract OCR''] \<and>
   map rec_type (content (results (projr (main scanned_pdf ''scan.pdf'')))) = [''ocr_text''] \<and>
   fst (ocr_fallback scanned_pdf (init ''scan.pdf'')) \<and>
   run_methods [ocr_fallback scanned_pdf, extract_with_pymupdf scanned_pdf] (init ''scan.pdf'')
     = snd (ocr_fallback scanned_pdf (init ''scan.pdf''))"
proof -
  have run: "main scanned_pdf ''scan.pdf'' = Inr (projr (main scanned_pdf ''scan.pdf''))"
    using scanned_main by (cases "main scanned_pdf ''scan.pdf''") simp_all
  have ok: "fst (ocr_fallback scanned_pdf (init ''scan.pdf''))"
    by (simp add: ocr_fallback_eq scanned_yields)
  note c = content_from_one_strategy [of scanned_pdf "''scan.pdf''"
      "projr (main scanned_pdf ''scan.pdf'')" "ocr_fallback scanned_pdf" "init ''scan.pdf''"
      "[extract_with_pymupdf scanned_pdf]"]
  from c run have "\<forall>rec\<in>set (content (results (projr (main scanned_pdf ''scan.pdf'')))).
      rec_type rec = (if extraction_methods (projr (main scanned_pdf ''scan.pdf'')) = [''Tesseract OCR'']
                      then ''ocr_text'' else ''text'')"
    by blast
  then have tags: "map rec_type (content (results (projr (main scanned_pdf ''scan.pdf'')))) = [''ocr_text'']"
    by (simp add: scanned_content scanned_main)
  from c ok have "run_methods [ocr_fallback scanned_pdf, extract_with_pymupdf scanned_pdf]
      (init ''scan.pdf'') = snd (ocr_fallback scanned_pdf (init ''scan.pdf''))"
    by blast
  with run tags ok scanned_main show ?thesis by blast
qed

section \<open>Candidates that fail\<close>

text \<open>
  C6: a candidate that fails internally or yields no text returns failure and leaves
  the extractor, and with it the result, exactly as it was; no failure leaves the
  candidate, and the selector goes on with the next candidate. For PDFPlumber this
  rests on what the library answers: its image dictionaries have no key \<open>bbox\<close>, so
  the candidate raises at the first image, before any figure record is appended. In
  the table extractor a detection method whose call raises contributes no table, and
  the other method still runs.
\<close>
theorem failed_candidate_contributes_nothing:
  "(\<not> yields_text (pymupdf_texts L) \<longrightarrow> extract_with_pymupdf L s = (False, s)) \<and>
   (images_lack_bbox L \<and> \<not> yields_text (pdfplumber_texts L) \<longrightarrow>
      extract_with_pdfplumber L s = (False, s)) \<and>
   (\<not> yields_text (pypdf_texts L) \<longrightarrow> extract_with_pypdf L s = (False, s)) \<and>
   (\<not> yields_text (ocr_texts L) \<longrightarrow> ocr_fallback L s = (False, s)) \<and>
   (\<not> fst (candidate s) \<longrightarrow>
      run_methods (candidate # rest) s = run_methods rest (snd (candidate s))) \<and>
   (camelot_read_pdf L = Inl e \<longrightarrow>
      extract_tables L s = s\<lparr>results := (results s)\<lparr>tables := tables (results s) @ tabula_part L\<rparr>\<rparr>) \<and>
   (tabula_read_pdf L = Inl e \<longrightarrow>
      extract_tables L s = s\<lparr>results := (results s)\<lparr>tables := tables (results s) @ camelot_part L\<rparr>\<rparr>) \<and>
   (camelot_read_pdf L = Inl e \<and> tabula_read_pdf L = Inl e' \<longrightarrow> extract_tables L s = s)"
proof -
  have "\<not> yields_text (pymupdf_texts L) \<longrightarrow> extract_with_pymupdf L s = (False, s)"
    by (simp add: extract_with_pymupdf_eq)
  moreover have "extract_with_pdfplumber L s = (False, s)"
    if "images_lack_bbox L" "\<not> yields_text (pdfplumber_texts L)"
    using that(2) pdfplumber_figs_lack_bbox [OF that(1)]
    by (simp add: extract_with_pdfplumber_eq)
  moreover have "\<not> yields_text (pypdf_texts L) \<longrightarrow> extract_with_pypdf L s = (False, s)"
    by (simp add: extract_with_pypdf_eq)
  moreover have "\<not> yields_text (ocr_texts L) \<longrightarrow> ocr_fallback L s = (False, s)"
    by (simp add: ocr_fallback_eq)
  moreover have "\<not> fst (candidate s) \<longrightarrow>
      run_methods (candidate # rest) s = run_methods rest (snd (candidate s))"
    using run_methods_next [of candidate s rest] by blast
  moreover have "camelot_read_pdf L = Inl e \<longrightarrow>
      extract_tables L s = s\<lparr>results := (results s)\<lparr>tables := tables (results s) @ tabula_part L\<rparr>\<rparr>"
    by (simp add: extract_tables_eq camelot_part_def)
  moreover have "tabula_read_pdf L = Inl e \<longrightarrow>
      extract_tables L s = s\<lparr>results := (results s)\<lparr>tables := tables (results s) @ camelot_part L\<rparr>\<rparr>"
    by (simp add: extract_tables_eq tabula_part_def)
  moreover have "camelot_read_pdf L = Inl e \<and> tabula_read_pdf L = Inl e' \<longrightarrow> extract_tables L s = s"
    by (simp add: extract_tables_def)
  ultimately show ?thesis by blast
qed

theorem failed_candidate_contributes_nothing_witness:
  "\<not> yields_text (pymupdf_texts scanned_pdf) \<and>
   extract_with_pymupdf scanned_pdf (init ''scan.pdf'') = (False, init ''scan.pdf'') \<and>
   images_lack_bbox scanned_pdf \<and>
   \<not> yields_text (pdfplumber_texts scanned_pdf) \<and>
   extract_with_pdfplumber scanned_pdf (init ''scan.pdf'') = (False, init ''scan.pdf'') \<and>
   camelot_read_pdf scanned_pdf = Inl OtherException \<and>
   tables (results (extract_tables scanned_pdf (init ''scan.pdf''))) = []"
proof -
  note c = failed_candidate_contributes_nothing
    [of scanned_pdf "init ''scan.pdf''" _ _ OtherException]
  from c scanned_yields
  have 1: "extract_with_pymupdf scanned_pdf (init ''scan.pdf'') = (False, init ''scan.pdf'')"
    by blast
  from c scanned_yields scanned_lacks_bbox
  have 2: "extract_with_pdfplumber scanned_pdf (init ''scan.pdf'') = (False, init ''scan.pdf'')"
    by blast
  have 3: "camelot_read_pdf scanned_pdf = Inl OtherException"
    by (simp add: scanned_pdf_def)
  with c have "extract_tables scanned_pdf (init ''scan.pdf'') =
      (init ''scan.pdf'')\<lparr>results := (results (init ''scan.pdf''))\<lparr>tables :=
         tables (results (init ''scan.pdf'')) @ tabula_part scanned_pdf\<rparr>\<rparr>"
    by blast
  then have 4: "tables (results (extract_tables scanned_pdf (init ''scan.pdf''))) = []"
    by (simp add: init_def tabula_part_def tabula_records_def scanned_pdf_def)
  from scanned_yields scanned_lacks_bbox 1 2 3 4 show ?thesis by blast
qed

section \<open>Table records\<close>

lemma star_ends_Nil [simp]: "star_ends k f [] = []"
  by (induction k) simp_all

lemma star_cls_reaches_end:
  assumes "p 10"
  shows "length s \<le> k \<Longrightarrow>
         (\<exists>st\<in>set (star_ends k (ends (Cls p)) [(n, s)]). snd st = [] \<or> snd st = [10])
           \<longleftrightarrow> (\<forall>c\<in>set s. p c)"
proof (induction s arbitrary: k n)
  case Nil
  then show ?case by (cases k) simp_all
next
  case (Cons c t)
  then obtain k' where k: "k = Suc k'" and len: "length t \<le> k'"
    by (cases k) simp_all
  show ?case
  proof (cases "p c")
    case True
    with Cons.IH [OF len, of "Suc n"] k show ?thesis
      by auto
  next
    case False
    with assms have "c \<noteq> 10" by auto
    with False k show ?thesis by simp
  qed
qed

lemma ends_blank_pattern:
  "ends blank_pattern (n, s) \<noteq> [] \<longleftrightarrow> n = 0 \<and> (\<forall>c\<in>set s. uni_space c)"
proof (cases "n = 0")
  case False
  then show ?thesis by (simp add: blank_pattern_def Seq_def)
next
  case True
  have sp: "uni_space 10" by (simp add: uni_space_def)
  have "ends blank_pattern (0, s) \<noteq> [] \<longleftrightarrow>
          (\<exists>st\<in>set (star_ends (length s) (ends (Cls uni_space)) [(0, s)]).
              snd st = [] \<or> snd st = [10])"
    by (simp add: blank_pattern_def Seq_def)
  moreover have "(\<exists>st\<in>set (star_ends (length s) (ends (Cls uni_space)) [(0, s)]).
              snd st = [] \<or> snd st = [10]) \<longleftrightarrow> (\<forall>c\<in>set s. uni_space c)"
    by (rule star_cls_reaches_end [where p = uni_space, OF sp]) simp
  ultimately show ?thesis using True
    by simp
qed

lemma search_from_blank_later: "n \<noteq> 0 \<Longrightarrow> \<not> search_from blank_pattern n s"
  by (induction s arbitrary: n) (simp_all add: ends_blank_pattern)

lemma re_search_blank: "re_search blank_pattern s \<longleftrightarrow> (\<forall>c\<in>set s. uni_space c)"
proof (cases s)
  case Nil
  then show ?thesis by (simp add: re_search_def ends_blank_pattern)
next
  case (Cons c cs)
  with search_from_blank_later [of "Suc 0" cs] show ?thesis
    by (simp add: re_search_def ends_blank_pattern)
qed

lemma filter_enumerate_values:
  "map snd (filter (\<lambda>(i, x). P x) (enumerate n xs)) = filter P xs"
  by (induction xs arbitrary: n) simp_all

lemma tabula_records_pages:
  "map tbl_page (tabula_records ts) =
     map (\<lambda>i. int i + 1) (filter (\<lambda>i. \<not> df_empty (ts ! i)) [0..<length ts])"
proof -
  have "map tbl_page (tabula_records ts) =
          map (\<lambda>i. int i + 1) (map fst (filter (\<lambda>(i, t). \<not> df_empty t) (enumerate 0 ts)))"
    by (simp add: tabula_records_def comp_def case_prod_beta)
  also have "\<dots> = map (\<lambda>i. int i + 1) (filter (\<lambda>i. \<not> df_empty (ts ! i)) [0..<length ts])"
    using filter_enumerate_index [of "\<lambda>t. \<not> df_empty t" 0 ts] by simp
  finally show ?thesis .
qed

lemma tabula_records_data:
  "map tbl_data (tabula_records ts) =
     map (\<lambda>d. to_dict_records (df_columns d) (map (map fillna) (df_rows d)))
       (filter (\<lambda>d. \<not> df_empty d) ts)"
proof -
  have "map tbl_data (tabula_records ts) =
          map (\<lambda>d. to_dict_records (df_columns d) (map (map fillna) (df_rows d)))
            (map snd (filter (\<lambda>(i, t). \<not> df_empty t) (enumerate 0 ts)))"
    by (simp add: tabula_records_def comp_def case_prod_beta)
  then show ?thesis
    by (simp add: filter_enumerate_values)
qed

lemma dict_set_fresh: "k \<notin> fst ` set ps \<Longrightarrow> dict_set k v ps = ps @ [(k, v)]"
  by (induction ps) auto

lemma fold_dict_set_distinct:
  "distinct (map fst kvs) \<Longrightarrow> fst ` set kvs \<inter> fst ` set acc = {} \<Longrightarrow>
   fold (\<lambda>(k, v). dict_set k v) kvs acc = acc @ kvs"
proof (induction kvs arbitrary: acc)
  case Nil
  then show ?case by simp
next
  case (Cons kv kvs)
  obtain k v where kv: "kv = (k, v)" by (cases kv)
  from Cons.prems kv have fresh: "k \<notin> fst ` set acc" by auto
  have "fold (\<lambda>(k, v). dict_set k v) kvs (acc @ [(k, v)]) = (acc @ [(k, v)]) @ kvs"
    using Cons.prems kv by (intro Cons.IH) auto
  with fresh kv show ?case
    by (simp add: dict_set_fresh)
qed

lemma to_dict_records_distinct:
  "distinct cols \<Longrightarrow> to_dict_records cols rows = map (zip cols) rows"
proof -
  assume d: "distinct cols"
  have "fold (\<lambda>(k, v). dict_set k v) (zip cols row) [] = zip cols row" for row :: "cell list"
    using fold_dict_set_distinct [of "zip cols row" "[]"] d
    by (simp add: distinct_zipI1 map_fst_zip_take)
  then show ?thesis
    by (simp add: to_dict_records_def)
qed

lemma map_of_dict_set: "map_of (dict_set k v ps) = (map_of ps)(k \<mapsto> v)"
  by (induction ps) (auto simp: fun_eq_iff)

lemma map_of_fold_dict_set:
  "map_of (fold (\<lambda>(k, v). dict_set k v) kvs acc) = map_of acc ++ map_of (rev kvs)"
proof (induction kvs arbitrary: acc)
  case Nil
  then show ?case by simp
next
  case (Cons kv kvs)
  obtain k v where kv: "kv = (k, v)" by (cases kv)
  have "map_of (fold (\<lambda>(k, v). dict_set k v) kvs (dict_set k v acc))
          = (map_of acc)(k \<mapsto> v) ++ map_of (rev kvs)"
    by (simp only: Cons.IH map_of_dict_set)
  also have "\<dots> = map_of acc ++ (map_of [(k, v)] ++ map_of (rev kvs))"
    by (simp add: map_add_upd_left fun_eq_iff map_add_def split: option.splits)
  finally show ?case
    using kv by simp
qed

lemma to_dict_records_lookup:
  "map map_of (to_dict_records cols rows) = map (\<lambda>row. map_of (rev (zip cols row))) rows"
  by (simp add: to_dict_records_def map_of_fold_dict_set)

text \<open>
  C5: the table extractor appends the records of the grid-line method (Camelot) and
  then those of the stream method (Tabula). A Camelot table with zero rows is skipped;
  in the \<open>data\<close> of its record, each row pairs the column labels with the cells of the
  row, where a string cell that consists of whitespace only has become the null marker
  and no other cell is changed; the recorded \<open>page\<close> is the page that the table
  carries. An empty Tabula table is skipped; in the \<open>data\<close> of its record a missing
  cell has become the empty string and no other cell is changed, so a whitespace-only
  string stays; the recorded \<open>page\<close> is the 1-based position of the table in the list
  that Tabula returned. The two normalisations are not the same function.
\<close>
theorem table_records_normalised:
  "tables (results (extract_tables L s)) = tables (results s) @ camelot_part L @ tabula_part L \<and>
   (camelot_read_pdf L = Inr cts \<longrightarrow> camelot_part L = camelot_records cts) \<and>
   (tabula_read_pdf L = Inr tts \<longrightarrow> tabula_part L = tabula_records tts) \<and>
   (df_rows d = [] \<longrightarrow> df_empty d) \<and>
   map tbl_page (camelot_records cts) = map cm_page (filter (\<lambda>t. \<not> df_empty (cm_df t)) cts) \<and>
   map tbl_data (camelot_records cts) =
     map (\<lambda>t. to_dict_records (df_columns (cm_df t))
                 (map (map (replace_blank (df_null (cm_df t)))) (df_rows (cm_df t))))
       (filter (\<lambda>t. \<not> df_empty (cm_df t)) cts) \<and>
   (\<forall>r\<in>set (camelot_records cts). tbl_method r = ''Camelot'') \<and>
   map tbl_page (tabula_records tts) =
     map (\<lambda>i. int i + 1) (filter (\<lambda>i. \<not> df_empty (tts ! i)) [0..<length tts]) \<and>
   map tbl_data (tabula_records tts) =
     map (\<lambda>d. to_dict_records (df_columns d) (map (map fillna) (df_rows d)))
       (filter (\<lambda>d. \<not> df_empty d) tts) \<and>
   (\<forall>r\<in>set (tabula_records tts). tbl_method r = ''Tabula'') \<and>
   (\<not> df_empty (cm_df t) \<and> distinct (df_columns (cm_df t)) \<longrightarrow>
      camelot_records [t] =
        [\<lparr>tbl_method = ''Camelot'', tbl_page = cm_page t,
          tbl_data = map (\<lambda>row. zip (df_columns (cm_df t))
                                  (map (replace_blank (df_null (cm_df t))) row))
                       (df_rows (cm_df t))\<rparr>]) \<and>
   (\<not> df_empty d \<and> distinct (df_columns d) \<longrightarrow>
      tabula_records [d] =
        [\<lparr>tbl_method = ''Tabula'', tbl_page = 1,
          tbl_data = map (\<lambda>row. zip (df_columns d) (map fillna row)) (df_rows d)\<rparr>]) \<and>
   map map_of (to_dict_records cols rows) = map (\<lambda>row. map_of (rev (zip cols row))) rows \<and>
   replace_blank null (CStr str) = (if \<forall>c\<in>set str. uni_space c then CNull null else CStr str) \<and>
   replace_blank null (CNull m) = CNull m \<and> replace_blank null (CInt k) = CInt k \<and>
   replace_blank null (CFloat a b) = CFloat a b \<and> replace_blank null (CBool v) = CBool v \<and>
   fillna (CNull m) = CStr [] \<and> fillna (CStr str) = CStr str \<and> fillna (CInt k) = CInt k \<and>
   fillna (CFloat a b) = CFloat a b \<and> fillna (CBool v) = CBool v"
proof -
  have "tables (results (extract_tables L s)) = tables (results s) @ camelot_part L @ tabula_part L"
    by (simp add: extract_tables_eq)
  moreover have "camelot_read_pdf L = Inr cts \<longrightarrow> camelot_part L = camelot_records cts"
    by (simp add: camelot_part_def)
  moreover have "tabula_read_pdf L = Inr tts \<longrightarrow> tabula_part L = tabula_records tts"
    by (simp add: tabula_part_def)
  moreover have "df_rows d = [] \<longrightarrow> df_empty d"
    by (simp add: df_empty_def)
  moreover have "map tbl_page (camelot_records cts) =
      map cm_page (filter (\<lambda>t. \<not> df_empty (cm_df t)) cts)"
    by (simp add: camelot_records_def comp_def)
  moreover have "map tbl_data (camelot_records cts) =
     map (\<lambda>t. to_dict_records (df_columns (cm_df t))
                 (map (map (replace_blank (df_null (cm_df t)))) (df_rows (cm_df t))))
       (filter (\<lambda>t. \<not> df_empty (cm_df t)) cts)"
    by (simp add: camelot_records_def comp_def)
  moreover have "\<forall>r\<in>set (camelot_records cts). tbl_method r = ''Camelot''"
    by (auto simp: camelot_records_def)
  moreover note tabula_records_pages [of tts] tabula_records_data [of tts]
  moreover have "\<forall>r\<in>set (tabula_records tts). tbl_method r = ''Tabula''"
    by (auto simp: tabula_records_def)
  moreover have "\<not> df_empty (cm_df t) \<and> distinct (df_columns (cm_df t)) \<longrightarrow>
      camelot_records [t] =
        [\<lparr>tbl_method = ''Camelot'', tbl_page = cm_page t,
          tbl_data = map (\<lambda>row. zip (df_columns (cm_df t))
                                  (map (replace_blank (df_null (cm_df t))) row))
                       (df_rows (cm_df t))\<rparr>]"
    by (simp add: camelot_records_def to_dict_records_distinct comp_def)
  moreover have "\<not> df_empty d \<and> distinct (df_columns d) \<longrightarrow>
      tabula_records [d] =
        [\<lparr>tbl_method = ''Tabula'', tbl_page = 1,
          tbl_data = map (\<lambda>row. zip (df_columns d) (map fillna row)) (df_rows d)\<rparr>]"
    by (simp add: tabula_records_def to_dict_records_distinct comp_def)
  moreover note to_dict_records_lookup [of cols rows]
  moreover have "replace_blank null (CStr str) =
      (if \<forall>c\<in>set str. uni_space c then CNull null else CStr str)"
    by (simp add: re_search_blank)
  ultimately show ?thesis by simp
qed

lemma digital_tables:
  "camelot_part digital_pdf =
     [\<lparr>tbl_method = ''Camelot'', tbl_page = 2,
       tbl_data = [[(LInt 0, CStr (py ''a'')), (LInt 1, CNull PyNone)],
                   [(LInt 0, CNull NaN), (LInt 1, CNull PyNone)]]\<rparr>] \<and>
   tabula_part digital_pdf =
     [\<lparr>tbl_method = ''Tabula'', tbl_page = 2,
       tbl_data = [[(LInt 0, CStr (py ''a'')), (LInt 1, CStr (py '' ''))],
                   [(LInt 0, CStr []), (LInt 1, CStr [])]]\<rparr>]"
  by (simp add: camelot_part_def tabula_part_def camelot_records_def tabula_records_def
      digital_pdf_def digital_frame_def df_empty_def to_dict_records_def re_search_blank
      enumerate_eq_zip upt_rec py_def uni_space_def)

theorem table_records_normalised_witness:
  "camelot_read_pdf digital_pdf =
     Inr [\<lparr>cm_page = 1, cm_df = \<lparr>df_columns = [], df_rows = [], df_null = PyNone\<rparr>\<rparr>,
          \<lparr>cm_page = 2, cm_df = digital_frame\<rparr>] \<and>
   df_rows \<lparr>df_columns = [], df_rows = [], df_null = PyNone\<rparr> = [] \<and>
   df_empty \<lparr>df_columns = [], df_rows = [], df_null = PyNone\<rparr> \<and>
   \<not> df_empty digital_frame \<and> distinct (df_columns digital_frame) \<and>
   camelot_records [\<lparr>cm_page = 2, cm_df = digital_frame\<rparr>] =
     [\<lparr>tbl_method = ''Camelot'', tbl_page = 2,
       tbl_data = [[(LInt 0, CStr (py ''a'')), (LInt 1, CNull PyNone)],
                   [(LInt 0, CNull NaN), (LInt 1, CNull PyNone)]]\<rparr>] \<and>
   tabula_records [digital_frame] =
     [\<lparr>tbl_method = ''Tabula'', tbl_page = 1,
       tbl_data = [[(LInt 0, CStr (py ''a'')), (LInt 1, CStr (py '' ''))],
                   [(LInt 0, CStr []), (LInt 1, CStr [])]]\<rparr>] \<and>
   tables (results (extract_tables digital_pdf (init ''report.pdf''))) =
     [\<lparr>tbl_method = ''Camelot'', tbl_page = 2,
       tbl_data = [[(LInt 0, CStr (py ''a'')), (LInt 1, CNull PyNone)],
                   [(LInt 0, CNull NaN), (LInt 1, CNull PyNone)]]\<rparr>,
      \<lparr>tbl_method = ''Tabula'', tbl_page = 2,
       tbl_data = [[(LInt 0, CStr (py ''a'')), (LInt 1, CStr (py '' ''))],
                   [(LInt 0, CStr []), (LInt 1, CStr [])]]\<rparr>]"
proof -
  note c = table_records_normalised [of digital_pdf "init ''report.pdf''"
      "[\<lparr>cm_page = 1, cm_df = \<lparr>df_columns = [], df_rows = [], df_null = PyNone\<rparr>\<rparr>,
        \<lparr>cm_page = 2, cm_df = digital_frame\<rparr>]" _
      "\<lparr>df_columns = [], df_rows = [], df_null = PyNone\<rparr>"]
  have 1: "camelot_read_pdf digital_pdf =
     Inr [\<lparr>cm_page = 1, cm_df = \<lparr>df_columns = [], df_rows = [], df_null = PyNone\<rparr>\<rparr>,
          \<lparr>cm_page = 2, cm_df = digital_frame\<rparr>]"
    by (simp add: digital_pdf_def)
  have 2: "df_rows \<lparr>df_columns = [], df_rows = [], df_null = PyNone\<rparr> = []"
    by simp
  from c 2 have 3: "df_empty \<lparr>df_columns = [], df_rows = [], df_null = PyNone\<rparr>"
    by blast
  have 4: "\<not> df_empty digital_frame" "distinct (df_columns digital_frame)"
    by (simp_all add: df_empty_def digital_frame_def)
  note f = table_records_normalised [where t = "\<lparr>cm_page = 2, cm_df = digital_frame\<rparr>"
      and d = digital_frame]
  have bl: "\<forall>c\<in>set (py '' ''). uni_space c" "\<forall>c\<in>set []. uni_space c"
    "\<not> (\<forall>c\<in>set (py ''a''). uni_space c)"
    by (simp_all add: py_def uni_space_def)
  from f 4 have "camelot_records [\<lparr>cm_page = 2, cm_df = digital_frame\<rparr>] =
        [\<lparr>tbl_method = ''Camelot'', tbl_page = 2,
          tbl_data = map (\<lambda>row. zip (df_columns digital_frame)
                                  (map (replace_blank (df_null digital_frame)) row))
                       (df_rows digital_frame)\<rparr>]"
    by simp
  then have 5: "camelot_records [\<lparr>cm_page = 2, cm_df = digital_frame\<rparr>] =
     [\<lparr>tbl_method = ''Camelot'', tbl_page = 2,
       tbl_data = [[(LInt 0, CStr (py ''a'')), (LInt 1, CNull PyNone)],
                   [(LInt 0, CNull NaN), (LInt 1, CNull PyNone)]]\<rparr>]"
    by (simp add: digital_frame_def re_search_blank bl)
  from f 4 have "tabula_records [digital_frame] =
        [\<lparr>tbl_method = ''Tabula'', tbl_page = 1,
          tbl_data = map (\<lambda>row. zip (df_columns digital_frame) (map fillna row))
                       (df_rows digital_frame)\<rparr>]"
    by simp
  then have 6: "tabula_records [digital_frame] =
     [\<lparr>tbl_method = ''Tabula'', tbl_page = 1,
       tbl_data = [[(LInt 0, CStr (py ''a'')), (LInt 1, CStr (py '' ''))],
                   [(LInt 0, CStr []), (LInt 1, CStr [])]]\<rparr>]"
    by (simp add: digital_frame_def)
  from c have "tables (results (extract_tables digital_pdf (init ''report.pdf''))) =
      tables (results (init ''report.pdf'')) @ camelot_part digital_pdf @ tabula_part digital_pdf"
    by blast
  then have 7: "tables (results (extract_tables digital_pdf (init ''report.pdf''))) =
     [\<lparr>tbl_method = ''Camelot'', tbl_page = 2,
       tbl_data = [[(LInt 0, CStr (py ''a'')), (LInt 1, CNull PyNone)],
                   [(LInt 0, CNull NaN), (LInt 1, CNull PyNone)]]\<rparr>,
      \<lparr>tbl_method = ''Tabula'', tbl_page = 2,
       tbl_data = [[(LInt 0, CStr (py ''a'')), (LInt 1, CStr (py '' ''))],
                   [(LInt 0, CStr []), (LInt 1, CStr [])]]\<rparr>]"
    by (simp add: digital_tables init_def)
  from 1 2 3 4 5 6 7 show ?thesis by blast
qed

section \<open>Determinism\<close>

lemma main_Inr_metadata:
  "main L path = Inr s \<Longrightarrow>
   \<exists>doc. fitz_open L = Inr doc \<and>
     metadata (results s) =
       [(''title'', meta_get (fz_metadata doc) ''title''),
        (''author'', meta_get (fz_metadata doc) ''author''),
        (''creator'', meta_get (fz_metadata doc) ''creator''),
        (''creation_date'', meta_get (fz_metadata doc) ''creation_date''),
        (''modification_date'', meta_get (fz_metadata doc) ''mod_date''),
        (''page_count'', MInt (fz_page_count doc))]"
  unfolding main_def extract_pdf_def extract_metadata_def run_methods_eq
  by (auto simp: process_content_def commit_text_eq append_figures_def split: sum.splits)

lemma main_Inr_selection:
  assumes "main L path = Inr s"
  shows "extraction_methods s =
           (if yields_text (pymupdf_texts L) then [''PyMuPDF'']
            else if yields_text (pdfplumber_texts L) then [''PDFPlumber'']
            else if yields_text (pypdf_texts L) then [''PyPDF'']
            else if yields_text (ocr_texts L) then [''Tesseract OCR'']
            else [])"
    and "tables (results s) =
           (if yields_text (pymupdf_texts L) \<or> yields_text (pdfplumber_texts L) \<or>
               yields_text (pypdf_texts L)
            then camelot_part L @ tabula_part L else [])"
proof -
  from main_Inr [OF assms] obtain md where
    s: "s = process_content (run_methods (methods L)
              ((init path)\<lparr>results := (results (init path))\<lparr>metadata := md\<rparr>\<rparr>))"
    by blast
  show "extraction_methods s =
           (if yields_text (pymupdf_texts L) then [''PyMuPDF'']
            else if yields_text (pdfplumber_texts L) then [''PDFPlumber'']
            else if yields_text (pypdf_texts L) then [''PyPDF'']
            else if yields_text (ocr_texts L) then [''Tesseract OCR'']
            else [])"
    unfolding s run_methods_eq
    by (simp add: process_content_def commit_text_eq append_figures_def init_def)
  show "tables (results s) =
           (if yields_text (pymupdf_texts L) \<or> yields_text (pdfplumber_texts L) \<or>
               yields_text (pypdf_texts L)
            then camelot_part L @ tabula_part L else [])"
    unfolding s run_methods_eq
    by (simp add: process_content_def commit_text_eq append_figures_def init_def)
qed

text \<open>
  C10: the outcome of the pipeline is a function of the answers of the libraries for
  the document, so two runs on the same document with the same answers end alike. More
  precisely, for two runs that complete: \<open>metadata\<close> is the same when \<open>fitz.open\<close>
  answers the same; the selected strategy is the same when each candidate yields text
  in both runs or in neither; and the table records are the same when, moreover, the two
  table detection calls answer the same.
\<close>
theorem pipeline_deterministic:
  "(L1 = L2 \<longrightarrow> main L1 path = main L2 path) \<and>
   (main L1 path = Inr s1 \<and> main L2 path = Inr s2 \<and> fitz_open L1 = fitz_open L2 \<longrightarrow>
      metadata (results s1) = metadata (results s2)) \<and>
   (main L1 path = Inr s1 \<and> main L2 path = Inr s2 \<and>
    yields_text (pymupdf_texts L1) = yields_text (pymupdf_texts L2) \<and>
    yields_text (pdfplumber_texts L1) = yields_text (pdfplumber_texts L2) \<and>
    yields_text (pypdf_texts L1) = yields_text (pypdf_texts L2) \<and>
    yields_text (ocr_texts L1) = yields_text (ocr_texts L2) \<longrightarrow>
      extraction_methods s1 = extraction_methods s2 \<and>
      (camelot_read_pdf L1 = camelot_read_pdf L2 \<and> tabula_read_pdf L1 = tabula_read_pdf L2 \<longrightarrow>
         tables (results s1) = tables (results s2)))"
proof -
  have "metadata (results s1) = metadata (results s2)"
    if "main L1 path = Inr s1" "main L2 path = Inr s2" "fitz_open L1 = fitz_open L2"
    using main_Inr_metadata [OF that(1)] main_Inr_metadata [OF that(2)] that(3) by auto
  moreover have "extraction_methods s1 = extraction_methods s2"
    if "main L1 path = Inr s1" "main L2 path = Inr s2"
      "yields_text (pymupdf_texts L1) = yields_text (pymupdf_texts L2)"
      "yields_text (pdfplumber_texts L1) = yields_text (pdfplumber_texts L2)"
      "yields_text (pypdf_texts L1) = yields_text (pypdf_texts L2)"
      "yields_text (ocr_texts L1) = yields_text (ocr_texts L2)"
    using that by (simp add: main_Inr_selection(1))
  moreover have "tables (results s1) = tables (results s2)"
    if "main L1 path = Inr s1" "main L2 path = Inr s2"
      "yields_text (pymupdf_texts L1) = yields_text (pymupdf_texts L2)"
      "yields_text (pdfplumber_texts L1) = yields_text (pdfplumber_texts L2)"
      "yields_text (pypdf_texts L1) = yields_text (pypdf_texts L2)"
      "camelot_read_pdf L1 = camelot_read_pdf L2" "tabula_read_pdf L1 = tabula_read_pdf L2"
    using that by (simp add: main_Inr_selection(2) camelot_part_def tabula_part_def)
  ultimately show ?thesis by blast
qed

lemma plain_run:
  "\<not> isl (main digital_pdf_plain ''report.pdf'') \<and>
   fitz_open digital_pdf_plain = fitz_open digital_pdf \<and>
   camelot_read_pdf digital_pdf_plain = camelot_read_pdf digital_pdf \<and>
   tabula_read_pdf digital_pdf_plain = tabula_read_pdf digital_pdf"
  by (simp add: main_def extract_pdf_def extract_metadata_def digital_pdf_plain_def digital_pdf_def)

lemma plain_yields:
  "yields_text (pymupdf_texts digital_pdf_plain) = yields_text (pymupdf_texts digital_pdf) \<and>
   yields_text (pdfplumber_texts digital_pdf_plain) = yields_text (pdfplumber_texts digital_pdf) \<and>
   yields_text (pypdf_texts digital_pdf_plain) = yields_text (pypdf_texts digital_pdf) \<and>
   yields_text (ocr_texts digital_pdf_plain) = yields_text (ocr_texts digital_pdf)"
  by (simp add: yields_text_def pymupdf_texts_def pdfplumber_texts_def pypdf_texts_def
      ocr_texts_def digital_pdf_plain_def digital_pdf_def image_complete_def strip_def py_def
      uni_space_def)

theorem pipeline_deterministic_witness:
  "main digital_pdf ''report.pdf'' = Inr (projr (main digital_pdf ''report.pdf'')) \<and>
   main digital_pdf_plain ''report.pdf'' = Inr (projr (main digital_pdf_plain ''report.pdf'')) \<and>
   fitz_open digital_pdf = fitz_open digital_pdf_plain \<and>
   metadata (results (projr (main digital_pdf ''report.pdf'')))
     = metadata (results (projr (main digital_pdf_plain ''report.pdf''))) \<and>
   extraction_methods (projr (main digital_pdf ''report.pdf''))
     = extraction_methods (projr (main digital_pdf_plain ''report.pdf'')) \<and>
   tables (results (projr (main digital_pdf ''report.pdf'')))
     = tables (results (projr (main digital_pdf_plain ''report.pdf'')))"
proof -
  have r1: "main digital_pdf ''report.pdf'' = Inr (projr (main digital_pdf ''report.pdf''))"
    using digital_run_methods by (cases "main digital_pdf ''report.pdf''") simp_all
  have r2: "main digital_pdf_plain ''report.pdf'' = Inr (projr (main digital_pdf_plain ''report.pdf''))"
    using plain_run by (cases "main digital_pdf_plain ''report.pdf''") simp_all
  note c = pipeline_deterministic [of digital_pdf digital_pdf_plain "''report.pdf''"
      "projr (main digital_pdf ''report.pdf'')" "projr (main digital_pdf_plain ''report.pdf'')"]
  have f: "fitz_open digital_pdf = fitz_open digital_pdf_plain"
    by (simp add: plain_run)
  from c r1 r2 f have 1: "metadata (results (projr (main digital_pdf ''report.pdf'')))
     = metadata (results (projr (main digital_pdf_plain ''report.pdf'')))"
    by blast
  from c r1 r2 plain_yields have 2: "extraction_methods (projr (main digital_pdf ''report.pdf''))
     = extraction_methods (projr (main digital_pdf_plain ''report.pdf''))"
    by blast
  have "camelot_read_pdf digital_pdf = camelot_read_pdf digital_pdf_plain"
    "tabula_read_pdf digital_pdf = tabula_read_pdf digital_pdf_plain"
    by (simp_all add: plain_run)
  with c r1 r2 plain_yields have 3: "tables (results (projr (main digital_pdf ''report.pdf'')))
     = tables (results (projr (main digital_pdf_plain ''report.pdf'')))"
    by blast
  from r1 r2 f 1 2 3 show ?thesis by blast
qed

section \<open>The sentinel header\<close>

lemma main_content_not_header: "\<not> is_header main_content"
  by (simp add: main_content_def eval_header)

lemma header_not_main_content: "is_header line \<Longrightarrow> line \<noteq> main_content"
  using main_content_not_header by auto

lemma fold_process_item:
  "fold process_item items st =
     fold process_line (concat (map (\<lambda>item. split_nl (rec_content item)) items)) st"
  by (induction items arbitrary: st) (simp_all add: process_item_def)

lemma process_line_present:
  "process_line raw (cur, hs) = (cur', hs') \<Longrightarrow> hs cur = None \<longrightarrow> cur = main_content \<Longrightarrow>
   hs' cur' \<noteq> None"
  by (auto simp: process_line_def Let_def split: if_splits option.splits)

lemma fold_process_line_present:
  "fold process_line raws (cur, hs) = (cur', hs') \<Longrightarrow> hs cur = None \<longrightarrow> cur = main_content \<Longrightarrow>
   hs' cur' = None \<longrightarrow> cur' = main_content"
proof (induction raws arbitrary: cur hs)
  case Nil
  then show ?case by simp
next
  case (Cons raw raws)
  obtain c h where step: "process_line raw (cur, hs) = (c, h)"
    by (cases "process_line raw (cur, hs)")
  from process_line_present [OF step Cons.prems(2)] have "h c = None \<longrightarrow> c = main_content"
    by blast
  with Cons.IH [of c h] Cons.prems(1) step show ?case
    by simp
qed

lemma other_header_keeps_sentinel:
  "hs cur \<noteq> None \<Longrightarrow> cur \<noteq> main_content \<Longrightarrow>
   snd (fold process_line raws (cur, hs)) main_content = hs main_content"
proof (induction raws arbitrary: cur hs)
  case Nil
  then show ?case by simp
next
  case (Cons raw raws)
  show ?case
  proof (cases "is_header (strip raw)")
    case True
    then have step: "process_line raw (cur, hs) = (strip raw, hs(strip raw \<mapsto> []))"
      by (simp add: process_line_def Let_def)
    from True have ne: "strip raw \<noteq> main_content"
      by (rule header_not_main_content)
    have "snd (fold process_line raws (strip raw, hs(strip raw \<mapsto> []))) main_content
            = (hs(strip raw \<mapsto> [])) main_content"
      using ne by (intro Cons.IH) simp_all
    with ne step show ?thesis
      by simp
  next
    case False
    from Cons.prems(1) obtain body where body: "hs cur = Some body"
      by auto
    with False have step: "process_line raw (cur, hs) = (cur, hs(cur \<mapsto> body @ [strip raw]))"
      by (simp add: process_line_def Let_def)
    have "snd (fold process_line raws (cur, hs(cur \<mapsto> body @ [strip raw]))) main_content
            = (hs(cur \<mapsto> body @ [strip raw])) main_content"
      using Cons.prems(2) by (intro Cons.IH) simp_all
    with Cons.prems(2) step show ?thesis
      by simp
  qed
qed

lemma sentinel_present_collects:
  "hs main_content = Some body \<Longrightarrow>
   snd (fold process_line raws (main_content, hs)) main_content =
     Some (body @ map strip (takeWhile (\<lambda>raw. \<not> is_header (strip raw)) raws))"
proof (induction raws arbitrary: hs body)
  case Nil
  then show ?case by simp
next
  case (Cons raw raws)
  show ?case
  proof (cases "is_header (strip raw)")
    case True
    then have step: "process_line raw (main_content, hs) = (strip raw, hs(strip raw \<mapsto> []))"
      by (simp add: process_line_def Let_def)
    from True have ne: "strip raw \<noteq> main_content"
      by (rule header_not_main_content)
    have "snd (fold process_line raws (strip raw, hs(strip raw \<mapsto> []))) main_content
            = (hs(strip raw \<mapsto> [])) main_content"
      using ne by (intro other_header_keeps_sentinel) simp_all
    with ne have "snd (fold process_line raws (strip raw, hs(strip raw \<mapsto> []))) main_content
            = hs main_content"
      by simp
    with step True Cons.prems show ?thesis by simp
  next
    case False
    with Cons.prems
    have step: "process_line raw (main_content, hs)
                  = (main_content, hs(main_content \<mapsto> body @ [strip raw]))"
      by (simp add: process_line_def Let_def)
    have "snd (fold process_line raws (main_content, hs(main_content \<mapsto> body @ [strip raw])))
            main_content
          = Some ((body @ [strip raw]) @ map strip (takeWhile (\<lambda>raw. \<not> is_header (strip raw)) raws))"
      by (intro Cons.IH) simp
    with step False show ?thesis by simp
  qed
qed

lemma sentinel_absent_collects:
  assumes "hs main_content = None"
  shows "snd (fold process_line raws (main_content, hs)) main_content =
           (if takeWhile (\<lambda>raw. \<not> is_header (strip raw)) raws = [] then None
            else Some (map strip (takeWhile (\<lambda>raw. \<not> is_header (strip raw)) raws)))"
proof (cases raws)
  case Nil
  with assms show ?thesis by simp
next
  case (Cons raw rest)
  show ?thesis
  proof (cases "is_header (strip raw)")
    case True
    then have step: "process_line raw (main_content, hs) = (strip raw, hs(strip raw \<mapsto> []))"
      by (simp add: process_line_def Let_def)
    from True have ne: "strip raw \<noteq> main_content"
      by (rule header_not_main_content)
    have "snd (fold process_line rest (strip raw, hs(strip raw \<mapsto> []))) main_content
            = (hs(strip raw \<mapsto> [])) main_content"
      using ne by (intro other_header_keeps_sentinel) simp_all
    with ne have "snd (fold process_line rest (strip raw, hs(strip raw \<mapsto> []))) main_content
            = hs main_content"
      by simp
    with step True assms Cons show ?thesis by simp
  next
    case False
    with assms
    have step: "process_line raw (main_content, hs) = (main_content, hs(main_content \<mapsto> [strip raw]))"
      by (simp add: process_line_def Let_def)
    have "snd (fold process_line rest (main_content, hs(main_content \<mapsto> [strip raw]))) main_content
            = Some ([strip raw] @ map strip (takeWhile (\<lambda>raw. \<not> is_header (strip raw)) rest))"
      by (intro sentinel_present_collects) simp
    with step False Cons show ?thesis by simp
  qed
qed

text \<open>
  C4: a line that is not a heading and is processed while the current header is not
  yet a key of \<open>headers\<close> goes into the body list of the sentinel "Main Content". The
  current header can be missing from the mapping only while it is the sentinel itself,
  before the sentinel was inserted, so the list that the line starts is the
  sentinel's. After processing, when the mapping had no sentinel at the start, the
  sentinel's body list holds the trimmed lines that precede the first heading, in
  order, and the sentinel is absent when there is no such line.
\<close>
theorem sentinel_collects_leading_lines:
  "(\<not> is_header (strip raw) \<and> hs main_content = None \<longrightarrow>
      process_line raw (main_content, hs) = (main_content, hs(main_content \<mapsto> [strip raw]))) \<and>
   (fold process_line raws (main_content, hs) = (cur, hs') \<and> hs' cur = None \<longrightarrow>
      cur = main_content) \<and>
   (headers (results s) main_content = None \<longrightarrow>
      headers (results (process_content s)) main_content =
        (if takeWhile (\<lambda>line. \<not> is_header line) (content_lines (content (results s))) = []
         then None
         else Some (takeWhile (\<lambda>line. \<not> is_header line) (content_lines (content (results s))))))"
proof -
  have "\<not> is_header (strip raw) \<and> hs main_content = None \<longrightarrow>
      process_line raw (main_content, hs) = (main_content, hs(main_content \<mapsto> [strip raw]))"
    by (simp add: process_line_def Let_def)
  moreover have "fold process_line raws (main_content, hs) = (cur, hs') \<and> hs' cur = None \<longrightarrow>
      cur = main_content"
    using fold_process_line_present [of raws main_content hs cur hs'] by blast
  moreover have "headers (results (process_content s)) main_content =
        (if takeWhile (\<lambda>line. \<not> is_header line) (content_lines (content (results s))) = []
         then None
         else Some (takeWhile (\<lambda>line. \<not> is_header line) (content_lines (content (results s)))))"
    if "headers (results s) main_content = None"
    using sentinel_absent_collects [where hs = "headers (results s)" and
        raws = "concat (map (\<lambda>item. split_nl (rec_content item)) (content (results s)))", OF that]
    by (simp add: process_content_def fold_process_item content_lines_def takeWhile_map comp_def)
  ultimately show ?thesis by blast
qed

lemma structurer_input_lines:
  "content_lines (content (results structurer_input)) =
     [py ''intro'', py ''the cat sat'', py ''RESULTS'', py ''after'']"
  by (simp add: structurer_input_def content_lines_def strip_def py_def uni_space_def)

lemma structurer_input_leading:
  "takeWhile (\<lambda>line. \<not> is_header line) [py ''intro'', py ''the cat sat'', py ''RESULTS'', py ''after'']
     = [py ''intro'', py ''the cat sat'']"
proof -
  have "\<not> is_header (py ''intro'')" by (simp add: eval_header)
  moreover have "\<not> is_header (py ''the cat sat'')" by (simp add: eval_header)
  moreover have "is_header (py ''RESULTS'')" by (simp add: eval_header)
  ultimately show ?thesis by simp
qed

theorem sentinel_collects_leading_lines_witness:
  "headers (results structurer_input) main_content = None \<and>
   headers (results (process_content structurer_input)) main_content
     = Some [py ''intro'', py ''the cat sat'']"
proof -
  have absent: "headers (results structurer_input) main_content = None"
    by (simp add: structurer_input_def init_def)
  from sentinel_collects_leading_lines [of _ _ _ _ _ structurer_input] absent
  have "headers (results (process_content structurer_input)) main_content =
        (if takeWhile (\<lambda>line. \<not> is_header line) (content_lines (content (results structurer_input))) = []
         then None
         else Some (takeWhile (\<lambda>line. \<not> is_header line)
                      (content_lines (content (results structurer_input)))))"
    by blast
  then have "headers (results (process_content structurer_input)) main_content
     = Some [py ''intro'', py ''the cat sat'']"
    unfolding structurer_input_lines structurer_input_leading by simp
  with absent show ?thesis by blast
qed

end
